theory Spec2Isabelle
  imports Complex_Main
begin

section \<open>JavaScript values\<close>

text \<open>
  The utilities of \<^verbatim>\<open>dataUtils.ts\<close> work on rows of type \<^verbatim>\<open>Record<string, any>\<close> whose
  cells, as the CSV parser produces them, are numbers, booleans, strings or null; a key that
  a row does not have reads as \<^verbatim>\<open>undefined\<close>.

  Numbers: a JavaScript number is an IEEE double. The model keeps the three special values
  and takes a finite number as a rational: finite arithmetic is exact (no rounding, no
  overflow to infinity), and the two zeros are one (a zero divisor is \<open>+0\<close>, which is what
  every divisor of the code is: a length or a literal). The rules for the special values
  are those of the language.
\<close>

datatype jsnum = Fin rat | NaN | PosInf | NegInf

fun js_neg :: "jsnum \<Rightarrow> jsnum" where
  "js_neg (Fin a) = Fin (- a)"
| "js_neg NaN = NaN"
| "js_neg PosInf = NegInf"
| "js_neg NegInf = PosInf"

fun js_add :: "jsnum \<Rightarrow> jsnum \<Rightarrow> jsnum" where
  "js_add (Fin a) (Fin b) = Fin (a + b)"
| "js_add NaN _ = NaN"
| "js_add _ NaN = NaN"
| "js_add PosInf NegInf = NaN"
| "js_add NegInf PosInf = NaN"
| "js_add PosInf _ = PosInf"
| "js_add _ PosInf = PosInf"
| "js_add NegInf _ = NegInf"
| "js_add _ NegInf = NegInf"

definition js_sub :: "jsnum \<Rightarrow> jsnum \<Rightarrow> jsnum" where
  "js_sub a b = js_add a (js_neg b)"

definition inf_of_sign :: "bool \<Rightarrow> jsnum" where
  "inf_of_sign positive = (if positive then PosInf else NegInf)"

fun js_mul :: "jsnum \<Rightarrow> jsnum \<Rightarrow> jsnum" where
  "js_mul (Fin a) (Fin b) = Fin (a * b)"
| "js_mul NaN _ = NaN"
| "js_mul _ NaN = NaN"
| "js_mul (Fin a) PosInf = (if a = 0 then NaN else inf_of_sign (0 < a))"
| "js_mul (Fin a) NegInf = (if a = 0 then NaN else inf_of_sign (a < 0))"
| "js_mul PosInf (Fin b) = (if b = 0 then NaN else inf_of_sign (0 < b))"
| "js_mul NegInf (Fin b) = (if b = 0 then NaN else inf_of_sign (b < 0))"
| "js_mul PosInf PosInf = PosInf"
| "js_mul NegInf NegInf = PosInf"
| "js_mul PosInf NegInf = NegInf"
| "js_mul NegInf PosInf = NegInf"

fun js_div :: "jsnum \<Rightarrow> jsnum \<Rightarrow> jsnum" where
  "js_div (Fin a) (Fin b) =
     (if b = 0 then (if a = 0 then NaN else inf_of_sign (0 < a)) else Fin (a / b))"
| "js_div NaN _ = NaN"
| "js_div _ NaN = NaN"
| "js_div (Fin a) _ = Fin 0"
| "js_div PosInf (Fin b) = inf_of_sign (0 \<le> b)"
| "js_div NegInf (Fin b) = inf_of_sign (b < 0)"
| "js_div _ _ = NaN"

text \<open>The relational operators: every comparison with \<open>NaN\<close> is false.\<close>

fun js_lt :: "jsnum \<Rightarrow> jsnum \<Rightarrow> bool" where
  "js_lt (Fin a) (Fin b) = (a < b)"
| "js_lt NaN _ = False"
| "js_lt _ NaN = False"
| "js_lt _ NegInf = False"
| "js_lt NegInf _ = True"
| "js_lt PosInf _ = False"
| "js_lt _ PosInf = True"

definition js_gt :: "jsnum \<Rightarrow> jsnum \<Rightarrow> bool" where
  "js_gt a b = js_lt b a"

definition js_le :: "jsnum \<Rightarrow> jsnum \<Rightarrow> bool" where
  "js_le a b = (a \<noteq> NaN \<and> b \<noteq> NaN \<and> \<not> js_lt b a)"

definition js_of_nat :: "nat \<Rightarrow> jsnum" where
  "js_of_nat n = Fin (of_nat n)"

text \<open>A number is truthy unless it is zero or \<open>NaN\<close>.\<close>

definition truthy_num :: "jsnum \<Rightarrow> bool" where
  "truthy_num n = (n \<noteq> NaN \<and> n \<noteq> Fin 0)"

datatype jsval = JNull | JUndefined | JNum jsnum | JBool bool | JStr string

text \<open>
  A row object: its own properties in insertion order. \<open>row_get\<close> is \<^verbatim>\<open>row[field]\<close>,
  \<open>row_set\<close> is the assignment \<^verbatim>\<open>row[field] = v\<close> on a copy (an existing property keeps its
  place, a new one goes last). Property names that look like array indices, which the
  language orders before the others, are outside the model.
\<close>

type_synonym row = "(string \<times> jsval) list"

definition row_get :: "row \<Rightarrow> string \<Rightarrow> jsval" where
  "row_get r f = (case map_of r f of Some v \<Rightarrow> v | None \<Rightarrow> JUndefined)"

fun row_set :: "string \<Rightarrow> jsval \<Rightarrow> row \<Rightarrow> row" where
  "row_set f v [] = [(f, v)]"
| "row_set f v ((k, w) # r) = (if k = f then (f, v) # r else (k, w) # row_set f v r)"

text \<open>The test \<^verbatim>\<open>v === null || v === undefined || v === ''\<close>.\<close>

definition isMissing :: "jsval \<Rightarrow> bool" where
  "isMissing v = (v = JNull \<or> v = JUndefined \<or> v = JStr [])"

text \<open>
  \<^verbatim>\<open>[...new Set(values)]\<close>: the distinct values in the order of their first occurrence.
  The equality of a Set (SameValueZero) is the equality of the datatype: \<open>NaN\<close> equals
  itself.
\<close>

fun uniq :: "'a list \<Rightarrow> 'a list" where
  "uniq [] = []"
| "uniq (x # xs) = x # uniq (filter (\<lambda>y. y \<noteq> x) xs)"

section \<open>Column type inference\<close>

datatype coltype = TString | TNumber | TBoolean | TDate | TMixed

text \<open>
  The regular expression of \<open>determineColumnType\<close>,
  \<^verbatim>\<open>/^\d{4}-\d{2}-\d{2}|\d{2}\/\d{2}\/\d{4}|\d{2}-\d{2}-\d{4}/\<close>,
  is an alternation of three sequences of digit classes and literal characters. The anchor
  \<^verbatim>\<open>^\<close> belongs to the first alternative only: alternation binds weaker than
  concatenation. \<^verbatim>\<open>test\<close> succeeds when some alternative matches at some position of the
  string, and an anchored alternative matches at position 0 only.
\<close>

datatype atom = Digit | Lit char

fun matchAtom :: "atom \<Rightarrow> char \<Rightarrow> bool" where
  "matchAtom Digit c = (c \<in> set ''0123456789'')"
| "matchAtom (Lit l) c = (c = l)"

fun matchesAt :: "atom list \<Rightarrow> string \<Rightarrow> bool" where
  "matchesAt [] s = True"
| "matchesAt (a # as) [] = False"
| "matchesAt (a # as) (c # cs) = (matchAtom a c \<and> matchesAt as cs)"

fun matchesSomewhere :: "atom list \<Rightarrow> string \<Rightarrow> bool" where
  "matchesSomewhere p [] = matchesAt p []"
| "matchesSomewhere p (c # cs) = (matchesAt p (c # cs) \<or> matchesSomewhere p cs)"

definition pat_ymd :: "atom list" where
  "pat_ymd = [Digit, Digit, Digit, Digit, Lit CHR ''-'', Digit, Digit, Lit CHR ''-'', Digit, Digit]"

definition pat_mdy_slash :: "atom list" where
  "pat_mdy_slash =
     [Digit, Digit, Lit CHR ''/'', Digit, Digit, Lit CHR ''/'', Digit, Digit, Digit, Digit]"

definition pat_mdy_dash :: "atom list" where
  "pat_mdy_dash =
     [Digit, Digit, Lit CHR ''-'', Digit, Digit, Lit CHR ''-'', Digit, Digit, Digit, Digit]"

definition datePattern_test :: "string \<Rightarrow> bool" where
  "datePattern_test s =
     (matchesAt pat_ymd s \<or> matchesSomewhere pat_mdy_slash s \<or> matchesSomewhere pat_mdy_dash s)"

text \<open>The callback of \<^verbatim>\<open>nonNullValues.map\<close>: the type of one value.\<close>

fun valueType :: "jsval \<Rightarrow> coltype" where
  "valueType (JNum n) = TNumber"
| "valueType (JBool b) = TBoolean"
| "valueType (JStr s) = (if datePattern_test s then TDate else TString)"
| "valueType v = TString"

definition determineColumnType :: "jsval list \<Rightarrow> coltype" where
  "determineColumnType values =
     (let nonNullValues = filter (\<lambda>v. \<not> isMissing v) values in
      if length nonNullValues = 0 then TString
      else (case uniq (map valueType nonNullValues) of
              [t] \<Rightarrow> t
            | _ \<Rightarrow> TMixed))"

text \<open>
  The date test as the specification words it: one of the three patterns, each anchored
  at the start of the string.
\<close>

definition spec_isDate :: "string \<Rightarrow> bool" where
  "spec_isDate s = (matchesAt pat_ymd s \<or> matchesAt pat_mdy_slash s \<or> matchesAt pat_mdy_dash s)"

section \<open>Built-in conversions\<close>

text \<open>
  Three conversions of the language are parameters of the model: the decimal rendering of
  a number (\<^verbatim>\<open>String(n)\<close>, template literals, \<^verbatim>\<open>JSON.stringify\<close>), \<^verbatim>\<open>n.toFixed(d)\<close>, and
  the conversion of a string to a number that \<^verbatim>\<open>Math.max\<close> and \<^verbatim>\<open>Math.min\<close> apply to
  their arguments. The theorems hold for all of them; the closed examples fix them to the
  instance \<open>integer_builtins\<close> below.
\<close>

record builtins =
  numberToString :: "jsnum \<Rightarrow> string"
  toFixed :: "jsnum \<Rightarrow> nat \<Rightarrow> string"
  stringToNumber :: "string \<Rightarrow> jsnum"

text \<open>The decimal digits of a length or a count.\<close>

fun digits_of :: "nat \<Rightarrow> string" where
  "digits_of n =
     (if n < 10 then [''0123456789'' ! n]
      else digits_of (n div 10) @ [''0123456789'' ! (n mod 10)])"

declare digits_of.simps [simp del]

text \<open>\<^verbatim>\<open>String(value)\<close>.\<close>

fun String_of :: "builtins \<Rightarrow> jsval \<Rightarrow> string" where
  "String_of env (JStr s) = s"
| "String_of env (JBool b) = (if b then ''true'' else ''false'')"
| "String_of env (JNum n) = numberToString env n"
| "String_of env JNull = ''null''"
| "String_of env JUndefined = ''undefined''"

text \<open>
  \<^verbatim>\<open>JSON.stringify(row)\<close>: the properties in order, a property whose value is
  \<^verbatim>\<open>undefined\<close> left out, a number that is not finite written \<^verbatim>\<open>null\<close>, a string quoted
  with the escapes of JSON.
\<close>

definition hexdigit :: "nat \<Rightarrow> char" where
  "hexdigit n = ''0123456789abcdef'' ! n"

definition json_escape :: "char \<Rightarrow> string" where
  "json_escape c =
     (let n = (of_char c :: nat) in
      if n = 8 then [CHR 0x5C, CHR ''b'']
      else if n = 9 then [CHR 0x5C, CHR ''t'']
      else if n = 10 then [CHR 0x5C, CHR ''n'']
      else if n = 12 then [CHR 0x5C, CHR ''f'']
      else if n = 13 then [CHR 0x5C, CHR ''r'']
      else if n = 34 then [CHR 0x5C, CHR 0x22]
      else if n = 92 then [CHR 0x5C, CHR 0x5C]
      else if n < 32
        then [CHR 0x5C, CHR ''u'', CHR ''0'', CHR ''0'', hexdigit (n div 16), hexdigit (n mod 16)]
      else [c])"

definition json_quote :: "string \<Rightarrow> string" where
  "json_quote s = [CHR 0x22] @ concat (map json_escape s) @ [CHR 0x22]"

fun json_value :: "builtins \<Rightarrow> jsval \<Rightarrow> string" where
  "json_value env JNull = ''null''"
| "json_value env JUndefined = ''null''"
| "json_value env (JBool b) = (if b then ''true'' else ''false'')"
| "json_value env (JNum (Fin a)) = numberToString env (Fin a)"
| "json_value env (JNum n) = ''null''"
| "json_value env (JStr s) = json_quote s"

fun join :: "string \<Rightarrow> string list \<Rightarrow> string" where
  "join sep [] = []"
| "join sep [x] = x"
| "join sep (x # y # ys) = x @ sep @ join sep (y # ys)"

definition JSON_stringify :: "builtins \<Rightarrow> row \<Rightarrow> string" where
  "JSON_stringify env r =
     ''{'' @ join '','' (map (\<lambda>(k, v). json_quote k @ '':'' @ json_value env v)
                          (filter (\<lambda>(k, v). v \<noteq> JUndefined) r)) @ ''}''"

section \<open>The profile\<close>

datatype modeval = ModeStr string | ModeNum jsnum

record DataColumn =
  name :: string
  type_c :: coltype
  uniqueValues :: "jsval list option"
  uniqueCount :: "nat option"
  nullCount :: "nat option"
  nullPercentage :: "jsnum option"
  min_c :: "jsnum option"
  max_c :: "jsnum option"
  mean :: "jsnum option"
  median :: "jsnum option"
  categories :: "(string \<times> nat) list option"
  mode :: "modeval option"

record DataProfile =
  rowCount :: nat
  columnCount :: nat
  columns :: "DataColumn list"
  nullValues :: nat
  nullPercentage_p :: jsnum
  duplicateRows :: nat
  duplicatePercentage :: jsnum

record DatasetType =
  data :: "row list"
  fields_d :: "string list"
  filename :: string

text \<open>\<^verbatim>\<open>Math.min(...xs)\<close> and \<^verbatim>\<open>Math.max(...xs)\<close> on numbers.\<close>

definition js_min2 :: "jsnum \<Rightarrow> jsnum \<Rightarrow> jsnum" where
  "js_min2 a b = (if a = NaN \<or> b = NaN then NaN else if js_lt b a then b else a)"

definition js_max2 :: "jsnum \<Rightarrow> jsnum \<Rightarrow> jsnum" where
  "js_max2 a b = (if a = NaN \<or> b = NaN then NaN else if js_lt a b then b else a)"

definition Math_min :: "jsnum list \<Rightarrow> jsnum" where
  "Math_min xs = foldl js_min2 PosInf xs"

definition Math_max :: "jsnum list \<Rightarrow> jsnum" where
  "Math_max xs = foldl js_max2 NegInf xs"

text \<open>
  \<^verbatim>\<open>[...xs].sort((a, b) => a - b)\<close>: a stable sort by the comparator, written as insertion
  sort. An element goes before the first one that the comparator puts after it
  (\<^verbatim>\<open>a - b < 0\<close>). Where the comparator is a consistent order (no \<open>NaN\<close> among the values)
  every conforming sort returns this list.
\<close>

fun insert_sorted :: "jsnum \<Rightarrow> jsnum list \<Rightarrow> jsnum list" where
  "insert_sorted x [] = [x]"
| "insert_sorted x (y # ys) =
     (if js_lt (js_sub x y) (Fin 0) then x # y # ys else y # insert_sorted x ys)"

definition sort_numbers :: "jsnum list \<Rightarrow> jsnum list" where
  "sort_numbers xs = foldl (\<lambda>acc x. insert_sorted x acc) [] xs"

definition median_of :: "jsnum list \<Rightarrow> jsnum" where
  "median_of numericValues =
     (let sorted = sort_numbers numericValues;
          mid = length sorted div 2
      in if length sorted mod 2 = 0
         then js_div (js_add (sorted ! (mid - 1)) (sorted ! mid)) (Fin 2)
         else sorted ! mid)"

text \<open>\<^verbatim>\<open>values.filter(v => typeof v === 'number')\<close>.\<close>

fun numbersOf :: "jsval list \<Rightarrow> jsnum list" where
  "numbersOf [] = []"
| "numbersOf (JNum n # vs) = n # numbersOf vs"
| "numbersOf (v # vs) = numbersOf vs"

text \<open>
  The frequency table \<^verbatim>\<open>categories\<close> is an object used as a dictionary: its keys in
  insertion order. \<open>bump\<close> is \<^verbatim>\<open>categories[key] = (categories[key] || 0) + 1\<close>. Keys that
  an empty object inherits (\<^verbatim>\<open>constructor\<close>, \<^verbatim>\<open>toString\<close>, ...) are outside the model.
\<close>

fun bump :: "string \<Rightarrow> (string \<times> nat) list \<Rightarrow> (string \<times> nat) list" where
  "bump key [] = [(key, 1)]"
| "bump key ((k, n) # cs) = (if k = key then (k, n + 1) # cs else (k, n) # bump key cs)"

definition countCategories :: "builtins \<Rightarrow> jsval list \<Rightarrow> (string \<times> nat) list" where
  "countCategories env values =
     foldl (\<lambda>categories v. if \<not> isMissing v then bump (String_of env v) categories else categories)
           [] values"

text \<open>The loop over \<^verbatim>\<open>Object.entries(categories)\<close> with its two variables.\<close>

definition findMode :: "(string \<times> nat) list \<Rightarrow> string option" where
  "findMode cats =
     snd (foldl (\<lambda>(maxCount, mode) (v, count).
                   if count > maxCount then (count, Some v) else (maxCount, mode))
                (0, None) cats)"

text \<open>
  The callback of \<^verbatim>\<open>fields.map\<close>. It adds to the variable \<^verbatim>\<open>nullCount\<close> of the enclosing
  function, so the model passes that variable in and out.
\<close>

definition profileField ::
  "builtins \<Rightarrow> row list \<Rightarrow> nat \<Rightarrow> nat \<Rightarrow> string \<Rightarrow> nat \<times> DataColumn" where
  "profileField env rows rowCnt nullCnt field =
     (let values = map (\<lambda>r. row_get r field) rows;
          fieldNulls = length (filter isMissing values);
          nullCnt' = nullCnt + fieldNulls;
          ty = determineColumnType values;
          column0 = \<lparr> name = field, type_c = ty,
                      uniqueValues = Some (uniq values),
                      uniqueCount = Some (length (uniq values)),
                      nullCount = Some fieldNulls,
                      nullPercentage =
                        Some (js_mul (js_div (js_of_nat fieldNulls) (js_of_nat rowCnt)) (Fin 100)),
                      min_c = None, max_c = None, mean = None, median = None,
                      categories = None, mode = None \<rparr>;
          numericValues = numbersOf values;
          column1 =
            (if ty = TNumber \<and> length numericValues > 0
             then column0 \<lparr> min_c := Some (Math_min numericValues),
                            max_c := Some (Math_max numericValues),
                            mean := Some (js_div (foldl js_add (Fin 0) numericValues)
                                                 (js_of_nat (length numericValues))),
                            median := Some (median_of numericValues) \<rparr>
             else column0);
          column2 =
            (if ty = TString \<or> ty = TBoolean
             then (let cats = countCategories env values
                   in column1 \<lparr> categories := Some cats,
                                 mode := map_option ModeStr (findMode cats) \<rparr>)
             else column1)
      in (nullCnt', column2))"

fun mapFields :: "(nat \<Rightarrow> string \<Rightarrow> nat \<times> DataColumn) \<Rightarrow> nat \<Rightarrow> string list
    \<Rightarrow> nat \<times> DataColumn list" where
  "mapFields f nullCnt [] = (nullCnt, [])"
| "mapFields f nullCnt (field # rest) =
     (case f nullCnt field of (nullCnt', column) \<Rightarrow>
        (case mapFields f nullCnt' rest of (nullCnt'', cols) \<Rightarrow> (nullCnt'', column # cols)))"

definition generateDataProfile :: "builtins \<Rightarrow> DatasetType \<Rightarrow> DataProfile" where
  "generateDataProfile env dataset =
     (let rowCnt = length (data dataset);
          columnCnt = length (fields_d dataset);
          totalCells = rowCnt * columnCnt
      in case mapFields (profileField env (data dataset) rowCnt) 0 (fields_d dataset) of
           (nullCnt, cols) \<Rightarrow>
             (let stringifiedRows = map (JSON_stringify env) (data dataset);
                  uniqueRows = uniq stringifiedRows;
                  dupRows = rowCnt - length uniqueRows
              in \<lparr> rowCount = rowCnt,
                   columnCount = columnCnt,
                   columns = cols,
                   nullValues = nullCnt,
                   nullPercentage_p =
                     js_mul (js_div (js_of_nat nullCnt) (js_of_nat totalCells)) (Fin 100),
                   duplicateRows = dupRows,
                   duplicatePercentage =
                     js_mul (js_div (js_of_nat dupRows) (js_of_nat rowCnt)) (Fin 100) \<rparr>))"

section \<open>Cleaning suggestions\<close>

datatype issue_kind = Missing | Outlier | Inconsistent | Duplicate

record CleaningSuggestion =
  column :: string
  issue :: issue_kind
  description :: string
  recommendation :: string
  autoFix :: "bool option"

text \<open>The truth value of \<^verbatim>\<open>column.mode\<close> and its text in a template literal.\<close>

fun truthy_mode :: "modeval option \<Rightarrow> bool" where
  "truthy_mode None = False"
| "truthy_mode (Some (ModeStr s)) = (s \<noteq> [])"
| "truthy_mode (Some (ModeNum n)) = truthy_num n"

fun mode_text :: "builtins \<Rightarrow> modeval option \<Rightarrow> string" where
  "mode_text env None = ''undefined''"
| "mode_text env (Some (ModeStr s)) = s"
| "mode_text env (Some (ModeNum n)) = numberToString env n"

definition count_text :: "nat option \<Rightarrow> string" where
  "count_text c = (case c of None \<Rightarrow> ''undefined'' | Some k \<Rightarrow> digits_of k)"

definition hasMissing :: "DataColumn \<Rightarrow> bool" where
  "hasMissing col =
     (case nullPercentage col of None \<Rightarrow> False | Some p \<Rightarrow> truthy_num p \<and> js_gt p (Fin 0))"

definition missingRecommendation :: "builtins \<Rightarrow> DataColumn \<Rightarrow> string" where
  "missingRecommendation env col =
     (if type_c col = TNumber then ''Fill with mean or median value''
      else if type_c col = TString \<and> truthy_mode (mode col)
        then ''Fill with most common value: '' @ [CHR 0x22] @ mode_text env (mode col) @ [CHR 0x22]
      else ''Remove rows or fill with placeholder'')"

definition missingSuggestion :: "builtins \<Rightarrow> DataColumn \<Rightarrow> CleaningSuggestion" where
  "missingSuggestion env col =
     \<lparr> column = name col, issue = Missing,
       description = count_text (nullCount col) @ '' missing values ('' @
         (case nullPercentage col of None \<Rightarrow> ''undefined'' | Some p \<Rightarrow> toFixed env p 2) @ ''%)'',
       recommendation = missingRecommendation env col,
       autoFix = Some True \<rparr>"

definition duplicateSuggestion :: "builtins \<Rightarrow> DataProfile \<Rightarrow> CleaningSuggestion" where
  "duplicateSuggestion env profile =
     \<lparr> column = ''Multiple'', issue = Duplicate,
       description = digits_of (duplicateRows profile) @ '' duplicate rows ('' @
         toFixed env (duplicatePercentage profile) 2 @ ''%)'',
       recommendation = ''Remove duplicate rows'',
       autoFix = Some True \<rparr>"

definition hasOutlier :: "DataColumn \<Rightarrow> bool" where
  "hasOutlier col =
     (case (min_c col, max_c col, mean col) of
        (Some mn, Some mx, Some avg) \<Rightarrow>
          js_gt (js_sub mx mn) (Fin 0) \<and> js_gt mx (js_mul avg (Fin 3))
      | _ \<Rightarrow> False)"

definition outlierSuggestion :: "builtins \<Rightarrow> DataColumn \<Rightarrow> CleaningSuggestion" where
  "outlierSuggestion env col =
     \<lparr> column = name col, issue = Outlier,
       description = ''Potential outliers detected (max value '' @
         (case max_c col of None \<Rightarrow> ''undefined'' | Some mx \<Rightarrow> numberToString env mx) @
         '' is far from mean '' @
         (case mean col of None \<Rightarrow> ''undefined'' | Some avg \<Rightarrow> toFixed env avg 2) @ '')'',
       recommendation = ''Consider capping extreme values or removing outliers'',
       autoFix = Some True \<rparr>"

definition generateCleaningSuggestions :: "builtins \<Rightarrow> DataProfile \<Rightarrow> CleaningSuggestion list" where
  "generateCleaningSuggestions env profile =
     map (missingSuggestion env) (filter hasMissing (columns profile)) @
     (if js_gt (duplicatePercentage profile) (Fin 0) then [duplicateSuggestion env profile] else []) @
     map (outlierSuggestion env)
         (filter hasOutlier (filter (\<lambda>col. type_c col = TNumber) (columns profile)))"

section \<open>The cleaning transform\<close>

text \<open>
  The \<^verbatim>\<open>Map\<close> of the duplicate removal: its entries in insertion order. Setting a key that
  is present replaces the value and keeps the entry's place.
\<close>

fun map_set :: "string \<Rightarrow> 'v \<Rightarrow> (string \<times> 'v) list \<Rightarrow> (string \<times> 'v) list" where
  "map_set key r [] = [(key, r)]"
| "map_set key r ((k, r0) # m) = (if k = key then (k, r) # m else (k, r0) # map_set key r m)"

definition removeDuplicates :: "builtins \<Rightarrow> row list \<Rightarrow> row list" where
  "removeDuplicates env cleanedData =
     map snd (foldl (\<lambda>uniqueRows r. map_set (JSON_stringify env r) r uniqueRows) [] cleanedData)"

fun mode_value :: "modeval \<Rightarrow> jsval" where
  "mode_value (ModeStr s) = JStr s"
| "mode_value (ModeNum n) = JNum n"

definition fillValue :: "DataColumn \<Rightarrow> jsval" where
  "fillValue col =
     (case (if type_c col = TNumber then median col else None) of
        Some m \<Rightarrow> JNum m
      | None \<Rightarrow>
          (case mode col of
             Some md \<Rightarrow> mode_value md
           | None \<Rightarrow> if type_c col = TNumber then JNum (Fin 0) else JStr ''Unknown''))"

definition fillRow :: "DataColumn \<Rightarrow> string \<Rightarrow> row \<Rightarrow> row" where
  "fillRow col c r = (if isMissing (row_get r c) then row_set c (fillValue col) r else r)"

definition capRow :: "jsnum \<Rightarrow> string \<Rightarrow> row \<Rightarrow> row" where
  "capRow cap c r =
     (case row_get r c of
        JNum v \<Rightarrow> if js_gt v cap then row_set c (JNum cap) r else r
      | _ \<Rightarrow> r)"

definition applyOutlier :: "DataProfile \<Rightarrow> CleaningSuggestion \<Rightarrow> row list \<Rightarrow> row list" where
  "applyOutlier profile suggestion cleanedData =
     (if issue suggestion = Outlier \<and> autoFix suggestion = Some True then
        (case find (\<lambda>col. name col = column suggestion) (columns profile) of
           None \<Rightarrow> cleanedData
         | Some col \<Rightarrow>
             (case (if type_c col = TNumber then median col else None) of
                None \<Rightarrow> cleanedData
              | Some m \<Rightarrow> map (capRow (js_mul m (Fin 3)) (column suggestion)) cleanedData))
      else cleanedData)"

text \<open>
  The callback of \<^verbatim>\<open>selectedSuggestions.forEach\<close>: three tests in sequence on the variable
  \<^verbatim>\<open>cleanedData\<close>; the \<^verbatim>\<open>return\<close> of the second one leaves the callback.
\<close>

definition applySuggestion ::
  "builtins \<Rightarrow> DataProfile \<Rightarrow> row list \<Rightarrow> CleaningSuggestion \<Rightarrow> row list" where
  "applySuggestion env profile cleanedData suggestion =
     (let cleaned1 =
            (if issue suggestion = Duplicate \<and> autoFix suggestion = Some True
             then removeDuplicates env cleanedData else cleanedData)
      in if issue suggestion = Missing \<and> autoFix suggestion = Some True then
           (case find (\<lambda>col. name col = column suggestion) (columns profile) of
              None \<Rightarrow> cleaned1
            | Some col \<Rightarrow>
                applyOutlier profile suggestion (map (fillRow col (column suggestion)) cleaned1))
         else applyOutlier profile suggestion cleaned1)"

definition cleanDataset ::
  "builtins \<Rightarrow> DatasetType \<Rightarrow> DataProfile \<Rightarrow> CleaningSuggestion list \<Rightarrow> DatasetType" where
  "cleanDataset env dataset profile selectedSuggestions =
     dataset \<lparr> data := foldl (applySuggestion env profile) (data dataset) selectedSuggestions \<rparr>"

section \<open>Question answering\<close>

text \<open>
  \<open>generateAnswer\<close> of \<^verbatim>\<open>DataBot.tsx\<close>. Strings are byte lists; \<open>toLowerCase\<close> maps the
  letters A to Z and leaves every other byte, so letters outside ASCII are outside the model.
\<close>

definition lowerOf :: "char \<Rightarrow> char" where
  "lowerOf c =
     (case map_of (zip ''ABCDEFGHIJKLMNOPQRSTUVWXYZ'' ''abcdefghijklmnopqrstuvwxyz'') c of
        Some l \<Rightarrow> l
      | None \<Rightarrow> c)"

definition toLowerCase :: "string \<Rightarrow> string" where
  "toLowerCase s = map lowerOf s"

fun startsWith :: "string \<Rightarrow> string \<Rightarrow> bool" where
  "startsWith s [] = True"
| "startsWith [] (p # ps) = False"
| "startsWith (c # cs) (p # ps) = (c = p \<and> startsWith cs ps)"

fun includes_s :: "string \<Rightarrow> string \<Rightarrow> bool" where
  "includes_s [] sub = (sub = [])"
| "includes_s (c # cs) sub = (startsWith (c # cs) sub \<or> includes_s cs sub)"

datatype js_error = TypeError

definition isNumber :: "jsval \<Rightarrow> bool" where
  "isNumber v = (case v of JNum n \<Rightarrow> True | _ \<Rightarrow> False)"

text \<open>The conversion that \<^verbatim>\<open>Math.max\<close> and \<^verbatim>\<open>Math.min\<close> apply to an argument.\<close>

fun ToNumber :: "builtins \<Rightarrow> jsval \<Rightarrow> jsnum" where
  "ToNumber env (JNum n) = n"
| "ToNumber env (JBool b) = (if b then Fin 1 else Fin 0)"
| "ToNumber env (JStr s) = stringToNumber env s"
| "ToNumber env JNull = Fin 0"
| "ToNumber env JUndefined = NaN"

fun typeof :: "jsval \<Rightarrow> string" where
  "typeof (JNum n) = ''number''"
| "typeof (JBool b) = ''boolean''"
| "typeof (JStr s) = ''string''"
| "typeof JNull = ''object''"
| "typeof JUndefined = ''undefined''"

text \<open>\<^verbatim>\<open>data.map(row => row[col]).filter(v => v !== null && v !== undefined)\<close>.\<close>

definition presentValues :: "row list \<Rightarrow> string \<Rightarrow> jsval list" where
  "presentValues rows col =
     filter (\<lambda>v. v \<noteq> JNull \<and> v \<noteq> JUndefined) (map (\<lambda>r. row_get r col) rows)"

definition missingCount :: "row list \<Rightarrow> string \<Rightarrow> nat" where
  "missingCount rows col = length (filter (\<lambda>r. isMissing (row_get r col)) rows)"

definition missingPercentage :: "row list \<Rightarrow> string \<Rightarrow> jsnum" where
  "missingPercentage rows col =
     js_mul (js_div (js_of_nat (missingCount rows col)) (js_of_nat (length rows))) (Fin 100)"

text \<open>
  The tests on a mentioned column, last to first; each definition is one test of the source
  followed by everything after it. The last one reads \<^verbatim>\<open>data[0][col]\<close>, which throws on
  a dataset without rows.
\<close>

definition answerGeneric :: "builtins \<Rightarrow> row list \<Rightarrow> string \<Rightarrow> js_error + string" where
  "answerGeneric env rows col =
     (case rows of
        [] \<Rightarrow> Inl TypeError
      | r0 # _ \<Rightarrow>
          Inr (''Information about '' @ [CHR 0x22] @ col @ [CHR 0x22] @ '': '' @ [CHR 0x0A] @
               ''- '' @ digits_of (length (uniq (map (\<lambda>r. row_get r col) rows))) @
               '' unique values'' @ [CHR 0x0A] @
               ''- '' @ digits_of (missingCount rows col) @ '' missing values ('' @
               toFixed env (missingPercentage rows col) 2 @ ''%)'' @ [CHR 0x0A] @
               ''- Type: '' @ typeof (row_get r0 col)))"

definition answerMissing ::
  "builtins \<Rightarrow> string \<Rightarrow> row list \<Rightarrow> string \<Rightarrow> js_error + string" where
  "answerMissing env questionLower rows col =
     (if includes_s questionLower ''missing'' \<or> includes_s questionLower ''null'' \<or>
         includes_s questionLower ''empty''
      then Inr (''There are '' @ digits_of (missingCount rows col) @ '' missing values ('' @
                toFixed env (missingPercentage rows col) 2 @ ''%) in the '' @
                [CHR 0x22] @ col @ [CHR 0x22] @ '' column.'')
      else answerGeneric env rows col)"

definition answerUnique ::
  "builtins \<Rightarrow> string \<Rightarrow> row list \<Rightarrow> string \<Rightarrow> js_error + string" where
  "answerUnique env questionLower rows col =
     (if includes_s questionLower ''unique'' \<or> includes_s questionLower ''distinct''
      then Inr (''There are '' @ digits_of (length (uniq (map (\<lambda>r. row_get r col) rows))) @
                '' unique values in the '' @ [CHR 0x22] @ col @ [CHR 0x22] @ '' column.'')
      else answerMissing env questionLower rows col)"

definition answerAverage ::
  "builtins \<Rightarrow> string \<Rightarrow> row list \<Rightarrow> string \<Rightarrow> js_error + string" where
  "answerAverage env questionLower rows col =
     (let values = numbersOf (map (\<lambda>r. row_get r col) rows) in
      if (includes_s questionLower ''average'' \<or> includes_s questionLower ''mean'') \<and>
         length values > 0
      then Inr (''The average value in the '' @ [CHR 0x22] @ col @ [CHR 0x22] @
                '' column is '' @
                toFixed env (js_div (foldl js_add (Fin 0) values) (js_of_nat (length values))) 2 @
                ''.'')
      else answerUnique env questionLower rows col)"

text \<open>\<^verbatim>\<open>values.length > 0 && typeof values[0] === 'number'\<close>.\<close>

definition firstIsNumber :: "jsval list \<Rightarrow> bool" where
  "firstIsNumber values = (case values of [] \<Rightarrow> False | v # _ \<Rightarrow> isNumber v)"

definition asksMinimum :: "string \<Rightarrow> bool" where
  "asksMinimum questionLower =
     (includes_s questionLower ''minimum'' \<or> includes_s questionLower ''min'' \<or>
      includes_s questionLower ''lowest'')"

definition asksMaximum :: "string \<Rightarrow> bool" where
  "asksMaximum questionLower =
     (includes_s questionLower ''maximum'' \<or> includes_s questionLower ''max'' \<or>
      includes_s questionLower ''highest'')"

definition minimumText :: "builtins \<Rightarrow> row list \<Rightarrow> string \<Rightarrow> string" where
  "minimumText env rows col =
     ''The minimum value in the '' @ [CHR 0x22] @ col @ [CHR 0x22] @ '' column is '' @
     numberToString env (Math_min (map (ToNumber env) (presentValues rows col))) @ ''.''"

definition answerMinimum ::
  "builtins \<Rightarrow> string \<Rightarrow> row list \<Rightarrow> string \<Rightarrow> js_error + string" where
  "answerMinimum env questionLower rows col =
     (if asksMinimum questionLower \<and> firstIsNumber (presentValues rows col)
      then Inr (minimumText env rows col)
      else answerAverage env questionLower rows col)"

definition maximumText :: "builtins \<Rightarrow> row list \<Rightarrow> string \<Rightarrow> string" where
  "maximumText env rows col =
     ''The maximum value in the '' @ [CHR 0x22] @ col @ [CHR 0x22] @ '' column is '' @
     numberToString env (Math_max (map (ToNumber env) (presentValues rows col))) @ ''.''"

definition answerMaximum ::
  "builtins \<Rightarrow> string \<Rightarrow> row list \<Rightarrow> string \<Rightarrow> js_error + string" where
  "answerMaximum env questionLower rows col =
     (if asksMaximum questionLower \<and> firstIsNumber (presentValues rows col)
      then Inr (maximumText env rows col)
      else answerMinimum env questionLower rows col)"

definition fallbackText :: string where
  "fallbackText = ''I'' @ [CHR 0x27] @ ''m not sure how to answer that question about your data. '' @
     ''Try asking about specific columns, row counts, or statistics like maximum, minimum, '' @
     ''or average values.''"

text \<open>
  \<^verbatim>\<open>fields.find\<close> gives the first field whose lower-case name occurs in the question; the
  test \<^verbatim>\<open>if (mentionedColumn)\<close> is false for no field and for the empty name.
\<close>

definition mentionedColumn :: "string \<Rightarrow> string list \<Rightarrow> string option" where
  "mentionedColumn questionLower fs = find (\<lambda>field. includes_s questionLower (toLowerCase field)) fs"

definition generateAnswer :: "builtins \<Rightarrow> string \<Rightarrow> DatasetType \<Rightarrow> js_error + string" where
  "generateAnswer env question dataset =
     (let questionLower = toLowerCase question in
      if includes_s questionLower ''how many rows'' \<or> includes_s questionLower ''how many records''
        then Inr (''There are '' @ digits_of (length (data dataset)) @ '' rows in this dataset.'')
      else if includes_s questionLower ''how many columns'' \<or>
              includes_s questionLower ''how many fields''
        then Inr (''There are '' @ digits_of (length (fields_d dataset)) @
                  '' columns in this dataset: '' @ join '', '' (fields_d dataset) @ ''.'')
      else if includes_s questionLower ''what columns'' \<or> includes_s questionLower ''what fields''
        then Inr (''The columns in this dataset are: '' @ join '', '' (fields_d dataset) @ ''.'')
      else (case mentionedColumn questionLower (fields_d dataset) of
              None \<Rightarrow> Inr fallbackText
            | Some col \<Rightarrow>
                if col = [] then Inr fallbackText
                else answerMaximum env questionLower (data dataset) col))"

section \<open>An instance of the conversions\<close>

text \<open>
  For closed examples. \<open>integerText\<close> is the decimal text of an integer and of a special
  value, which is all the numbers that the examples print this way; for any other number
  it is a placeholder. \<open>fixedText\<close> is \<^verbatim>\<open>toFixed\<close> on the exact value: the nearest multiple
  of \<open>10\<^sup>-\<^sup>d\<close>, the larger one on a tie, below \<open>10\<^sup>2\<^sup>1\<close>. \<open>digitsValue\<close> reads a string of
  decimal digits and is a placeholder on any other string.
\<close>

definition integerText :: "jsnum \<Rightarrow> string" where
  "integerText n =
     (case n of
        Fin a \<Rightarrow>
          if a = of_int \<lfloor>a\<rfloor> then (if a < 0 then ''-'' else []) @ digits_of (nat \<lfloor>\<bar>a\<bar>\<rfloor>)
          else ''?''
      | NaN \<Rightarrow> ''NaN''
      | PosInf \<Rightarrow> ''Infinity''
      | NegInf \<Rightarrow> ''-Infinity'')"

definition fixedText :: "jsnum \<Rightarrow> nat \<Rightarrow> string" where
  "fixedText n d =
     (case n of
        Fin a \<Rightarrow>
          if \<bar>a\<bar> < 10 ^ 21 then
            (let ds = digits_of (nat \<lfloor>\<bar>a\<bar> * 10 ^ d + 1 / 2\<rfloor>);
                 padded = replicate (d + 1 - length ds) CHR ''0'' @ ds;
                 k = length padded - d
             in (if a < 0 then ''-'' else []) @ take k padded @
                (if d = 0 then [] else ''.'' @ drop k padded))
          else integerText n
      | _ \<Rightarrow> integerText n)"

definition digitsValue :: "string \<Rightarrow> jsnum" where
  "digitsValue s =
     (if s \<noteq> [] \<and> list_all (\<lambda>c. c \<in> set ''0123456789'') s
      then Fin (of_nat (foldl (\<lambda>n c. 10 * n + (of_char c - 48)) 0 s))
      else NaN)"

definition integer_builtins :: builtins where
  "integer_builtins =
     \<lparr> numberToString = integerText, toFixed = fixedText, stringToNumber = digitsValue \<rparr>"

section \<open>Datasets of the examples\<close>

text \<open>Scenario A of the specification: two fields, three rows, the first and third equal.\<close>

definition scenario_dataset :: DatasetType where
  "scenario_dataset =
     \<lparr> data = [[(''age'', JNum (Fin 25)), (''city'', JStr ''NY'')],
               [(''age'', JNull), (''city'', JStr ''NY'')],
               [(''age'', JNum (Fin 25)), (''city'', JStr ''NY'')]],
       fields_d = [''age'', ''city''], filename = ''a.csv'' \<rparr>"

text \<open>Scenario D: one numeric column with the values 10, 10, 10, 1000.\<close>

definition outlier_dataset :: DatasetType where
  "outlier_dataset =
     \<lparr> data = [[(''v'', JNum (Fin 10))], [(''v'', JNum (Fin 10))], [(''v'', JNum (Fin 10))],
               [(''v'', JNum (Fin 1000))]],
       fields_d = [''v''], filename = ''d.csv'' \<rparr>"

text \<open>A file with a header line and no rows.\<close>

definition empty_dataset :: DatasetType where
  "empty_dataset = \<lparr> data = [], fields_d = [''a''], filename = ''empty.csv'' \<rparr>"

text \<open>A boolean column with one missing cell.\<close>

definition boolean_dataset :: DatasetType where
  "boolean_dataset =
     \<lparr> data = [[(''ok'', JBool True)], [(''ok'', JNull)]],
       fields_d = [''ok''], filename = ''b.csv'' \<rparr>"

text \<open>A string column with one missing cell.\<close>

definition city_dataset :: DatasetType where
  "city_dataset =
     \<lparr> data = [[(''city'', JStr ''NY'')], [(''city'', JNull)]],
       fields_d = [''city''], filename = ''c.csv'' \<rparr>"

text \<open>A column whose first value is a string and whose other values are numbers.\<close>

definition mixed_dataset :: DatasetType where
  "mixed_dataset =
     \<lparr> data = [[(''x'', JStr ''n/a'')], [(''x'', JNum (Fin 5))], [(''x'', JNum (Fin 7))]],
       fields_d = [''x''], filename = ''m.csv'' \<rparr>"

definition duplicate_suggestion :: CleaningSuggestion where
  "duplicate_suggestion =
     \<lparr> column = ''Multiple'', issue = Duplicate, description = [],
       recommendation = ''Remove duplicate rows'', autoFix = Some True \<rparr>"

definition outlier_suggestion :: CleaningSuggestion where
  "outlier_suggestion =
     \<lparr> column = ''v'', issue = Outlier, description = [],
       recommendation = ''Consider capping extreme values or removing outliers'',
       autoFix = Some True \<rparr>"

text \<open>
  The sum of the columns' \<^verbatim>\<open>nullCount\<close> fields, undefined when one of them is (the sum
  in the language would be \<open>NaN\<close>).
\<close>

fun sumNullCounts :: "DataColumn list \<Rightarrow> nat option" where
  "sumNullCounts [] = Some 0"
| "sumNullCounts (c # cs) =
     (case nullCount c of
        None \<Rightarrow> None
      | Some n \<Rightarrow> map_option (\<lambda>m. n + m) (sumNullCounts cs))"

section \<open>The cleaning transform on a store of row objects\<close>

text \<open>
  Whether \<open>cleanDataset\<close> changes its input depends on which objects it writes to. Here
  the row objects live in a store (the object at address \<open>a\<close> is \<open>st ! a\<close>) and a dataset
  holds the addresses of its rows. The function writes to one kind of object only: the
  assignment \<^verbatim>\<open>newRow[suggestion.column] = ...\<close> writes to the copy \<^verbatim>\<open>{...row}\<close> made just
  before it, and \<^verbatim>\<open>{...row, [suggestion.column]: cap}\<close> makes a new object. Arrays are
  never written to (\<^verbatim>\<open>[...dataset.data]\<close>, \<^verbatim>\<open>map\<close> and \<^verbatim>\<open>Array.from\<close> make new ones and
  the variable \<^verbatim>\<open>cleanedData\<close> is rebound), nor is the profile, so both stay values.
\<close>

type_synonym ref = nat
type_synonym store = "row list"

record DatasetRefs =
  data_r :: "ref list"
  fields_r :: "string list"
  filename_r :: string

definition readDataset :: "store \<Rightarrow> DatasetRefs \<Rightarrow> DatasetType" where
  "readDataset st d =
     \<lparr> data = map (\<lambda>a. st ! a) (data_r d), fields_d = fields_r d, filename = filename_r d \<rparr>"

definition removeDuplicatesS :: "builtins \<Rightarrow> store \<Rightarrow> ref list \<Rightarrow> ref list" where
  "removeDuplicatesS env st cleanedData =
     map snd (foldl (\<lambda>uniqueRows a. map_set (JSON_stringify env (st ! a)) a uniqueRows) []
                cleanedData)"

definition fillRowS :: "DataColumn \<Rightarrow> string \<Rightarrow> store \<Rightarrow> ref \<Rightarrow> store \<times> ref" where
  "fillRowS col c st a =
     (if isMissing (row_get (st ! a) c) then
        (let newRow = length st;
             st1 = st @ [st ! a];
             st2 = st1 [newRow := row_set c (fillValue col) (st1 ! newRow)]
         in (st2, newRow))
      else (st, a))"

definition capRowS :: "jsnum \<Rightarrow> string \<Rightarrow> store \<Rightarrow> ref \<Rightarrow> store \<times> ref" where
  "capRowS cap c st a =
     (case row_get (st ! a) c of
        JNum v \<Rightarrow> if js_gt v cap then (st @ [row_set c (JNum cap) (st ! a)], length st) else (st, a)
      | _ \<Rightarrow> (st, a))"

fun mapRowsS :: "(store \<Rightarrow> ref \<Rightarrow> store \<times> ref) \<Rightarrow> store \<Rightarrow> ref list \<Rightarrow> store \<times> ref list" where
  "mapRowsS f st [] = (st, [])"
| "mapRowsS f st (a # as) =
     (case f st a of (st1, b) \<Rightarrow>
        (case mapRowsS f st1 as of (st2, bs) \<Rightarrow> (st2, b # bs)))"

definition applyOutlierS ::
  "DataProfile \<Rightarrow> CleaningSuggestion \<Rightarrow> store \<times> ref list \<Rightarrow> store \<times> ref list" where
  "applyOutlierS profile suggestion state =
     (if issue suggestion = Outlier \<and> autoFix suggestion = Some True then
        (case find (\<lambda>col. name col = column suggestion) (columns profile) of
           None \<Rightarrow> state
         | Some col \<Rightarrow>
             (case (if type_c col = TNumber then median col else None) of
                None \<Rightarrow> state
              | Some m \<Rightarrow>
                  mapRowsS (capRowS (js_mul m (Fin 3)) (column suggestion)) (fst state) (snd state)))
      else state)"

definition applySuggestionS ::
  "builtins \<Rightarrow> DataProfile \<Rightarrow> store \<times> ref list \<Rightarrow> CleaningSuggestion \<Rightarrow> store \<times> ref list" where
  "applySuggestionS env profile state suggestion =
     (let state1 =
            (if issue suggestion = Duplicate \<and> autoFix suggestion = Some True
             then (fst state, removeDuplicatesS env (fst state) (snd state)) else state)
      in if issue suggestion = Missing \<and> autoFix suggestion = Some True then
           (case find (\<lambda>col. name col = column suggestion) (columns profile) of
              None \<Rightarrow> state1
            | Some col \<Rightarrow>
                applyOutlierS profile suggestion
                  (mapRowsS (fillRowS col (column suggestion)) (fst state1) (snd state1)))
         else applyOutlierS profile suggestion state1)"

definition cleanDatasetS ::
  "builtins \<Rightarrow> store \<Rightarrow> DatasetRefs \<Rightarrow> DataProfile \<Rightarrow> CleaningSuggestion list
     \<Rightarrow> store \<times> DatasetRefs" where
  "cleanDatasetS env st dataset profile selectedSuggestions =
     (case foldl (applySuggestionS env profile) (st, data_r dataset) selectedSuggestions of
        (st', cleanedData) \<Rightarrow> (st', dataset \<lparr> data_r := cleanedData \<rparr>))"

text \<open>A store that keeps every object of an earlier store as it was.\<close>

definition extends :: "store \<Rightarrow> store \<Rightarrow> bool" where
  "extends st' st = (take (length st) st' = st)"

text \<open>The addresses \<open>refs\<close> are allocated in the store and hold the rows \<open>rows\<close>.\<close>

definition reads :: "store \<Rightarrow> ref list \<Rightarrow> row list \<Rightarrow> bool" where
  "reads st refs rows = (list_all (\<lambda>a. a < length st) refs \<and> map (\<lambda>a. st ! a) refs = rows)"

definition scenario_refs :: DatasetRefs where
  "scenario_refs = \<lparr> data_r = [0, 1, 2], fields_r = [''age'', ''city''], filename_r = ''a.csv'' \<rparr>"

definition missing_suggestion :: CleaningSuggestion where
  "missing_suggestion =
     \<lparr> column = ''age'', issue = Missing, description = [],
       recommendation = ''Fill with mean or median value'', autoFix = Some True \<rparr>"

section \<open>Auxiliary facts\<close>

lemma set_uniq: "set (uniq xs) = set xs"
  by (induction xs rule: uniq.induct) auto

lemma distinct_uniq: "distinct (uniq xs)"
  by (induction xs rule: uniq.induct) (auto simp: set_uniq)

lemma length_uniq_card: "length (uniq xs) = card (set xs)"
  using distinct_card [OF distinct_uniq, of xs] by (simp add: set_uniq)

lemma length_uniq_le: "length (uniq xs) \<le> length xs"
  by (simp add: length_uniq_card card_length)

lemma row_get_row_set_same: "row_get (row_set c v r) c = v"
  by (induction r) (auto simp: row_get_def)

lemma row_get_row_set_other: "f \<noteq> c \<Longrightarrow> row_get (row_set c v r) f = row_get r f"
  by (induction r) (auto simp: row_get_def)

subsection \<open>The columns of a profile\<close>

lemma profileField_nullCount:
  "profileField env rows n k f = (k', c) \<Longrightarrow>
     nullCount c = Some (length (filter isMissing (map (\<lambda>r. row_get r f) rows))) \<and>
     k' = k + length (filter isMissing (map (\<lambda>r. row_get r f) rows))"
  by (auto simp: profileField_def Let_def split: if_splits)

lemma mapFields_sum:
  "mapFields (profileField env rows n) k fs = (k', cols) \<Longrightarrow>
     map_option (\<lambda>m. k + m) (sumNullCounts cols) = Some k'"
proof (induction fs arbitrary: k k' cols)
  case Nil
  then show ?case by simp
next
  case (Cons f fs)
  obtain k1 c where step: "profileField env rows n k f = (k1, c)"
    by (cases "profileField env rows n k f")
  obtain k2 cs where rest: "mapFields (profileField env rows n) k1 fs = (k2, cs)"
    by (cases "mapFields (profileField env rows n) k1 fs")
  from Cons.prems step rest have res: "k' = k2" "cols = c # cs"
    by simp_all
  from Cons.IH [OF rest] obtain m where m: "sumNullCounts cs = Some m" "k2 = k1 + m"
    by auto
  from profileField_nullCount [OF step] obtain j where j: "nullCount c = Some j" "k1 = k + j"
    by auto
  show ?case
    by (simp add: res m j)
qed

lemma mapFields_no_rows:
  "mapFields (profileField env [] n) k fs = (k', cols) \<Longrightarrow> k' = k"
proof (induction fs arbitrary: k k' cols)
  case Nil
  then show ?case by simp
next
  case (Cons f fs)
  obtain k1 c where step: "profileField env [] n k f = (k1, c)"
    by (cases "profileField env [] n k f")
  obtain k2 cs where rest: "mapFields (profileField env [] n) k1 fs = (k2, cs)"
    by (cases "mapFields (profileField env [] n) k1 fs")
  from profileField_nullCount [OF step] have "k1 = k"
    by simp
  moreover from Cons.IH [OF rest] have "k2 = k1" .
  moreover from Cons.prems step rest have "k' = k2"
    by simp
  ultimately show ?case
    by simp
qed

lemma snd_profileField_start:
  "snd (profileField env rows n k f) = snd (profileField env rows n 0 f)"
  by (simp add: profileField_def Let_def)

lemma mapFields_columns:
  "snd (mapFields (profileField env rows n) k fs) =
     map (\<lambda>f. snd (profileField env rows n 0 f)) fs"
proof (induction fs arbitrary: k)
  case Nil
  then show ?case by simp
next
  case (Cons f fs)
  show ?case
    using Cons.IH [of "fst (profileField env rows n k f)"]
      snd_profileField_start [of env rows n k f]
    by (auto split: prod.splits)
qed

lemma columns_generateDataProfile:
  "columns (generateDataProfile env ds) =
     map (\<lambda>f. snd (profileField env (data ds) (length (data ds)) 0 f)) (fields_d ds)"
  using mapFields_columns [of env "data ds" "length (data ds)" 0 "fields_d ds"]
  by (auto simp: generateDataProfile_def Let_def split: prod.splits)

lemma duplicatePercentage_generateDataProfile:
  "duplicatePercentage (generateDataProfile env ds) =
     js_mul (js_div (js_of_nat (duplicateRows (generateDataProfile env ds)))
                    (js_of_nat (length (data ds)))) (Fin 100)"
  by (simp add: generateDataProfile_def Let_def split: prod.splits)

lemma duplicateRows_generateDataProfile:
  "duplicateRows (generateDataProfile env ds) =
     length (data ds) - card (set (map (JSON_stringify env) (data ds)))"
  by (simp add: generateDataProfile_def Let_def length_uniq_card split: prod.splits)


subsection \<open>Suggestions by kind\<close>

lemma missing_suggestions:
  "filter (\<lambda>s. issue s = Missing) (generateCleaningSuggestions env profile) =
     map (missingSuggestion env) (filter hasMissing (columns profile))"
  by (simp add: generateCleaningSuggestions_def missingSuggestion_def duplicateSuggestion_def
      outlierSuggestion_def filter_map o_def)

lemma outlier_suggestions:
  "filter (\<lambda>s. issue s = Outlier) (generateCleaningSuggestions env profile) =
     map (outlierSuggestion env)
       (filter hasOutlier (filter (\<lambda>col. type_c col = TNumber) (columns profile)))"
  by (simp add: generateCleaningSuggestions_def missingSuggestion_def duplicateSuggestion_def
      outlierSuggestion_def filter_map o_def)

subsection \<open>Columns of the examples\<close>

lemma columns_boolean_dataset:
  "columns (generateDataProfile env boolean_dataset) =
     [\<lparr> name = ''ok'', type_c = TBoolean, uniqueValues = Some [JBool True, JNull],
        uniqueCount = Some 2, nullCount = Some 1, nullPercentage = Some (Fin 50),
        min_c = None, max_c = None, mean = None, median = None,
        categories = Some [(''true'', 1)], mode = Some (ModeStr ''true'') \<rparr>]"
  by (simp add: columns_generateDataProfile boolean_dataset_def profileField_def Let_def
      row_get_def determineColumnType_def isMissing_def js_of_nat_def countCategories_def
      findMode_def)

lemma columns_city_dataset:
  "columns (generateDataProfile env city_dataset) =
     [\<lparr> name = ''city'', type_c = TString, uniqueValues = Some [JStr ''NY'', JNull],
        uniqueCount = Some 2, nullCount = Some 1, nullPercentage = Some (Fin 50),
        min_c = None, max_c = None, mean = None, median = None,
        categories = Some [(''NY'', 1)], mode = Some (ModeStr ''NY'') \<rparr>]"
  by (simp add: columns_generateDataProfile city_dataset_def profileField_def Let_def
      row_get_def determineColumnType_def isMissing_def js_of_nat_def countCategories_def
      findMode_def datePattern_test_def pat_ymd_def pat_mdy_slash_def pat_mdy_dash_def)

lemma columns_outlier_dataset:
  "columns (generateDataProfile env outlier_dataset) =
     [\<lparr> name = ''v'', type_c = TNumber, uniqueValues = Some [JNum (Fin 10), JNum (Fin 1000)],
        uniqueCount = Some 2, nullCount = Some 0, nullPercentage = Some (Fin 0),
        min_c = Some (Fin 10), max_c = Some (Fin 1000), mean = Some (Fin (515 / 2)),
        median = Some (Fin 10), categories = None, mode = None \<rparr>]"
  by (simp add: columns_generateDataProfile outlier_dataset_def profileField_def Let_def
      row_get_def determineColumnType_def isMissing_def js_of_nat_def Math_min_def Math_max_def
      js_min2_def js_max2_def median_of_def sort_numbers_def js_sub_def)

lemma data_outlier_dataset:
  "data outlier_dataset =
     [[(''v'', JNum (Fin 10))], [(''v'', JNum (Fin 10))], [(''v'', JNum (Fin 10))],
      [(''v'', JNum (Fin 1000))]]"
  by (simp add: outlier_dataset_def)

subsection \<open>Capping\<close>

lemma capRow_cell:
  "row_get (capRow cap c r) f =
     (if f = c then (case row_get r c of JNum v \<Rightarrow> if js_gt v cap then JNum cap else JNum v | w \<Rightarrow> w)
      else row_get r f)"
  by (auto simp: capRow_def row_get_row_set_same row_get_row_set_other split: jsval.splits)

lemma cleanDataset_outlier:
  assumes "issue s = Outlier" and "autoFix s = Some True"
    and "find (\<lambda>col. name col = column s) (columns profile) = Some col"
    and "type_c col = TNumber" and "median col = Some m"
  shows "data (cleanDataset env ds profile [s]) =
           map (capRow (js_mul m (Fin 3)) (column s)) (data ds)"
  using assms by (simp add: cleanDataset_def applySuggestion_def applyOutlier_def)


lemma capRow_unchanged:
  "\<not> (\<exists>v. row_get r c = JNum v \<and> js_gt v cap) \<Longrightarrow> capRow cap c r = r"
  by (auto simp: capRow_def split: jsval.splits)

lemma outlier_scenario:
  "data (cleanDataset env outlier_dataset (generateDataProfile env outlier_dataset)
           (filter (\<lambda>s. issue s = Outlier)
              (generateCleaningSuggestions env (generateDataProfile env outlier_dataset)))) =
     [[(''v'', JNum (Fin 10))], [(''v'', JNum (Fin 10))], [(''v'', JNum (Fin 10))],
      [(''v'', JNum (Fin 30))]]"
  by (simp add: outlier_suggestions columns_outlier_dataset data_outlier_dataset hasOutlier_def
      js_gt_def js_sub_def cleanDataset_def applySuggestion_def applyOutlier_def
      outlierSuggestion_def capRow_def row_get_def)

subsection \<open>Duplicate removal\<close>

lemma uniq_distinct_id: "distinct xs \<Longrightarrow> uniq xs = xs"
proof (induction xs)
  case Nil
  then show ?case by simp
next
  case (Cons x xs)
  then have "filter (\<lambda>y. y \<noteq> x) xs = xs"
    by (auto intro: filter_True)
  with Cons show ?case by simp
qed

lemma map_set_keys:
  "map fst (map_set key r m) = (if key \<in> set (map fst m) then map fst m else map fst m @ [key])"
  by (induction m) (auto simp: rev_image_eqI)

lemma map_set_fresh: "key \<notin> set (map fst m) \<Longrightarrow> map_set key r m = m @ [(key, r)]"
  by (induction m) auto

lemma map_set_entries:
  "\<forall>e \<in> set m. fst e = K (snd e) \<Longrightarrow> \<forall>e \<in> set (map_set (K r) r m). fst e = K (snd e)"
proof (induction m)
  case Nil
  then show ?case by simp
next
  case (Cons e m)
  obtain k r0 where e: "e = (k, r0)" by (cases e)
  from Cons.prems have "\<forall>e \<in> set m. fst e = K (snd e)" by simp
  from Cons.IH [OF this] Cons.prems show ?case
    by (simp add: e)
qed

lemma map_set_values: "snd ` set (map_set key r m) \<subseteq> insert r (snd ` set m)"
proof (induction m)
  case Nil
  then show ?case by simp
next
  case (Cons e m)
  obtain k r0 where e: "e = (k, r0)" by (cases e)
  from Cons.IH show ?case
    by (cases "k = key") (auto simp: e)
qed

lemma run_keys:
  "map fst (foldl (\<lambda>u r. map_set (K r) r u) m rows) =
     map fst m @ uniq (filter (\<lambda>k. k \<notin> set (map fst m)) (map K rows))"
proof (induction rows arbitrary: m)
  case Nil
  then show ?case by simp
next
  case (Cons r rs)
  show ?case
  proof (cases "K r \<in> set (map fst m)")
    case True
    then show ?thesis
      using Cons.IH [of "map_set (K r) r m"] by (simp add: map_set_keys)
  next
    case False
    have "filter (\<lambda>k. k \<noteq> K r) (filter (\<lambda>k. k \<notin> set (map fst m)) (map K rs)) =
          filter (\<lambda>k. k \<notin> set (map fst m @ [K r])) (map K rs)"
      by (auto intro: filter_cong)
    with False show ?thesis
      using Cons.IH [of "map_set (K r) r m"] by (simp add: map_set_keys)
  qed
qed

lemma run_entries:
  "\<forall>e \<in> set m. fst e = K (snd e) \<Longrightarrow>
     \<forall>e \<in> set (foldl (\<lambda>u r. map_set (K r) r u) m rows). fst e = K (snd e)"
proof (induction rows arbitrary: m)
  case Nil
  then show ?case by simp
next
  case (Cons r rs)
  from map_set_entries [OF Cons.prems] show ?case
    using Cons.IH [of "map_set (K r) r m"] by simp
qed

lemma foldl_map_set_values:
  "snd ` set (foldl (\<lambda>u r. map_set (K r) r u) m rows) \<subseteq> snd ` set m \<union> set rows"
proof (induction rows arbitrary: m)
  case Nil
  then show ?case by simp
next
  case (Cons r rs)
  show ?case
    using Cons.IH [of "map_set (K r) r m"] map_set_values [of "K r" r m] by auto
qed

lemma run_distinct_id:
  "distinct (map K rows) \<Longrightarrow> set (map fst m) \<inter> set (map K rows) = {} \<Longrightarrow>
     foldl (\<lambda>u r. map_set (K r) r u) m rows = m @ map (\<lambda>r. (K r, r)) rows"
proof (induction rows arbitrary: m)
  case Nil
  then show ?case by simp
next
  case (Cons r rs)
  from Cons.prems have fresh: "K r \<notin> set (map fst m)" by auto
  from Cons.prems have "set (map fst (m @ [(K r, r)])) \<inter> set (map K rs) = {}" by auto
  moreover from Cons.prems have "distinct (map K rs)" by simp
  ultimately show ?case
    using Cons.IH [of "m @ [(K r, r)]"] by (simp add: map_set_fresh [OF fresh])
qed

lemma removeDuplicates_keys:
  "map (JSON_stringify env) (removeDuplicates env rows) = uniq (map (JSON_stringify env) rows)"
proof -
  let ?u = "foldl (\<lambda>u r. map_set (JSON_stringify env r) r u) [] rows"
  have "\<forall>e \<in> set ?u. fst e = JSON_stringify env (snd e)"
    by (rule run_entries) simp
  then have "map (JSON_stringify env) (map snd ?u) = map fst ?u"
    by (induction ?u) auto
  then show ?thesis
    using run_keys [of "JSON_stringify env" "[]" rows] by (simp add: removeDuplicates_def)
qed

lemma removeDuplicates_subset: "set (removeDuplicates env rows) \<subseteq> set rows"
  using foldl_map_set_values [of "JSON_stringify env" "[]" rows] by (simp add: removeDuplicates_def)

lemma removeDuplicates_distinct_id:
  "distinct (map (JSON_stringify env) rows) \<Longrightarrow> removeDuplicates env rows = rows"
  using run_distinct_id [of "JSON_stringify env" rows "[]"]
  by (simp add: removeDuplicates_def o_def)

lemma removeDuplicates_idem:
  "removeDuplicates env (removeDuplicates env rows) = removeDuplicates env rows"
  by (rule removeDuplicates_distinct_id) (simp add: removeDuplicates_keys distinct_uniq)

lemma cleanDataset_duplicate:
  "issue s = Duplicate \<Longrightarrow> autoFix s = Some True \<Longrightarrow>
     cleanDataset env ds p [s] = ds \<lparr> data := removeDuplicates env (data ds) \<rparr>"
  by (simp add: cleanDataset_def applySuggestion_def applyOutlier_def)


subsection \<open>The store\<close>

lemma extends_refl: "extends st st"
  by (simp add: extends_def)

lemma extends_length:
  assumes "extends st' st"
  shows "length st \<le> length st'"
proof -
  from assms have "length (take (length st) st') = length st"
    by (simp add: extends_def)
  then show ?thesis
    by simp
qed

lemma extends_trans:
  assumes "extends st2 st1" and "extends st1 st"
  shows "extends st2 st"
proof -
  have le: "length st \<le> length st1"
    using assms(2) by (rule extends_length)
  have "take (length st) st2 = take (length st) (take (length st1) st2)"
    using le by (simp add: min_def)
  also have "\<dots> = take (length st) st1"
    using assms(1) by (simp add: extends_def)
  also have "\<dots> = st"
    using assms(2) by (simp add: extends_def)
  finally show ?thesis
    by (simp add: extends_def)
qed

lemma extends_nth:
  assumes "extends st' st" and "a < length st"
  shows "st' ! a = st ! a"
proof -
  have "take (length st) st' ! a = st' ! a"
    using assms(2) by simp
  with assms(1) show ?thesis
    by (simp add: extends_def)
qed

lemma fillRowS_extends: "extends (fst (fillRowS col c st a)) st"
  by (simp add: fillRowS_def extends_def Let_def)

lemma capRowS_extends: "extends (fst (capRowS cap c st a)) st"
  by (simp add: capRowS_def extends_def split: jsval.splits)

lemma mapRowsS_extends:
  "(\<And>st a. extends (fst (f st a)) st) \<Longrightarrow> extends (fst (mapRowsS f st refs)) st"
proof (induction refs arbitrary: st)
  case Nil
  then show ?case by (simp add: extends_refl)
next
  case (Cons a as)
  have "extends (fst (mapRowsS f (fst (f st a)) as)) (fst (f st a))"
    by (rule Cons.IH) (rule Cons.prems)
  then have "extends (fst (mapRowsS f (fst (f st a)) as)) st"
    using Cons.prems [of st a] by (rule extends_trans)
  then show ?case
    by (simp add: case_prod_beta)
qed

lemma applyOutlierS_extends: "extends (fst (applyOutlierS profile s state)) (fst state)"
proof -
  have cap: "extends (fst (mapRowsS (capRowS cap c) st refs)) st" for cap c st refs
    by (rule mapRowsS_extends) (rule capRowS_extends)
  show ?thesis
    by (simp add: applyOutlierS_def extends_refl cap split: option.splits)
qed

lemma applySuggestionS_extends: "extends (fst (applySuggestionS env profile state s)) (fst state)"
proof -
  define state1 where "state1 =
    (if issue s = Duplicate \<and> autoFix s = Some True
     then (fst state, removeDuplicatesS env (fst state) (snd state)) else state)"
  have one: "fst state1 = fst state"
    by (simp add: state1_def)
  have fill: "extends (fst (mapRowsS (fillRowS col c) st refs)) st" for col c st refs
    by (rule mapRowsS_extends) (rule fillRowS_extends)
  have two: "extends (fst (applyOutlierS profile s (mapRowsS (fillRowS col c) (fst state1) (snd state1))))
                (fst state1)" for col c
    using applyOutlierS_extends fill by (rule extends_trans)
  have "applySuggestionS env profile state s =
      (if issue s = Missing \<and> autoFix s = Some True then
           (case find (\<lambda>col. name col = column s) (columns profile) of
              None \<Rightarrow> state1
            | Some col \<Rightarrow>
                applyOutlierS profile s
                  (mapRowsS (fillRowS col (column s)) (fst state1) (snd state1)))
         else applyOutlierS profile s state1)"
    unfolding applySuggestionS_def state1_def Let_def by (rule refl)
  then show ?thesis
    using two applyOutlierS_extends [of profile s state1]
    by (simp add: one [symmetric] extends_refl split: option.splits)
qed

lemma foldl_applySuggestionS_extends:
  "extends (fst (foldl (applySuggestionS env profile) state sel)) (fst state)"
proof (induction sel arbitrary: state)
  case Nil
  then show ?case by (simp add: extends_refl)
next
  case (Cons s sel)
  have "extends (fst (foldl (applySuggestionS env profile) (applySuggestionS env profile state s) sel))
          (fst (applySuggestionS env profile state s))"
    by (rule Cons.IH)
  then have "extends (fst (foldl (applySuggestionS env profile) (applySuggestionS env profile state s) sel))
          (fst state)"
    using applySuggestionS_extends by (rule extends_trans)
  then show ?case
    by simp
qed

lemma reads_extends:
  assumes "reads st refs rows" and "extends st' st"
  shows "reads st' refs rows"
proof -
  from assms(1) have valid: "\<forall>a \<in> set refs. a < length st"
    by (simp add: reads_def list_all_iff)
  with assms(2) have eq: "map (\<lambda>a. st' ! a) refs = map (\<lambda>a. st ! a) refs"
    by (simp add: extends_nth)
  from assms(1) have "map (\<lambda>a. st ! a) refs = rows"
    by (simp add: reads_def)
  with eq have rows: "map (\<lambda>a. st' ! a) refs = rows"
    by (rule trans)
  from valid extends_length [OF assms(2)] have "\<forall>a \<in> set refs. a < length st'"
    by auto
  with rows show ?thesis
    unfolding reads_def list_all_iff by (rule conjI [rotated])
qed

lemma mapRowsS_reads:
  assumes ext: "\<And>st a. extends (fst (f st a)) st"
    and step: "\<And>st a. a < length st \<Longrightarrow>
       snd (f st a) < length (fst (f st a)) \<and> fst (f st a) ! snd (f st a) = g (st ! a)"
    and "reads st refs rows"
  shows "reads (fst (mapRowsS f st refs)) (snd (mapRowsS f st refs)) (map g rows)"
  using assms(3)
proof (induction refs arbitrary: st rows)
  case Nil
  then show ?case by (simp add: reads_def)
next
  case (Cons a as)
  from Cons.prems obtain r rs where rows: "rows = r # rs" and a: "a < length st" "st ! a = r"
    and rest: "reads st as rs"
    by (auto simp: reads_def)
  define st1 where "st1 = fst (f st a)"
  define b where "b = snd (f st a)"
  define st2 where "st2 = fst (mapRowsS f st1 as)"
  define bs where "bs = snd (mapRowsS f st1 as)"
  have ext1: "extends st1 st"
    unfolding st1_def by (rule ext)
  from step [OF a(1)] have b: "b < length st1" "st1 ! b = g r"
    by (simp_all add: st1_def b_def a(2))
  from rest ext1 have "reads st1 as rs"
    by (rule reads_extends)
  then have ih: "reads st2 bs (map g rs)"
    unfolding st2_def bs_def by (rule Cons.IH)
  have ext2: "extends st2 st1"
    unfolding st2_def by (rule mapRowsS_extends) (rule ext)
  from ext2 b have b2: "b < length st2" "st2 ! b = g r"
    using extends_length [OF ext2] by (simp_all add: extends_nth)
  have "mapRowsS f st (a # as) = (st2, b # bs)"
    by (simp add: st1_def b_def st2_def bs_def case_prod_beta)
  with ih b2 show ?case
    by (simp add: reads_def rows)
qed

lemma fillRowS_step:
  "a < length st \<Longrightarrow>
     snd (fillRowS col c st a) < length (fst (fillRowS col c st a)) \<and>
     fst (fillRowS col c st a) ! snd (fillRowS col c st a) = fillRow col c (st ! a)"
  by (simp add: fillRowS_def fillRow_def Let_def)

lemma capRowS_step:
  "a < length st \<Longrightarrow>
     snd (capRowS cap c st a) < length (fst (capRowS cap c st a)) \<and>
     fst (capRowS cap c st a) ! snd (capRowS cap c st a) = capRow cap c (st ! a)"
  by (simp add: capRowS_def capRow_def split: jsval.splits)

lemma map_set_image:
  "map (\<lambda>(k, a). (k, h a)) (map_set key a m) = map_set key (h a) (map (\<lambda>(k, a). (k, h a)) m)"
  by (induction m) auto

lemma foldl_map_set_image:
  "map (\<lambda>(k, a). (k, h a)) (foldl (\<lambda>u a. map_set (K (h a)) a u) m refs) =
     foldl (\<lambda>u r. map_set (K r) r u) (map (\<lambda>(k, a). (k, h a)) m) (map h refs)"
  by (induction refs arbitrary: m) (simp_all add: map_set_image)

lemma removeDuplicatesS_reads:
  assumes "reads st refs rows"
  shows "reads st (removeDuplicatesS env st refs) (removeDuplicates env rows)"
proof -
  have "set (removeDuplicatesS env st refs) \<subseteq> set refs"
    using foldl_map_set_values [of "\<lambda>a. JSON_stringify env (st ! a)" "[]" refs]
    by (simp add: removeDuplicatesS_def)
  with assms have valid: "list_all (\<lambda>a. a < length st) (removeDuplicatesS env st refs)"
    by (auto simp: reads_def list_all_iff)
  have "map (\<lambda>a. st ! a) (removeDuplicatesS env st refs) =
        map snd (map (\<lambda>(k, a). (k, st ! a))
          (foldl (\<lambda>u a. map_set (JSON_stringify env (st ! a)) a u) [] refs))"
    by (simp add: removeDuplicatesS_def o_def case_prod_beta)
  also have "\<dots> = removeDuplicates env (map (\<lambda>a. st ! a) refs)"
    using foldl_map_set_image [of "\<lambda>a. st ! a" "JSON_stringify env" "[]" refs]
    by (simp add: removeDuplicates_def)
  finally show ?thesis
    using assms valid by (simp add: reads_def)
qed

lemma applyOutlierS_reads:
  assumes "reads (fst state) (snd state) rows"
  shows "reads (fst (applyOutlierS profile s state)) (snd (applyOutlierS profile s state))
           (applyOutlier profile s rows)"
proof -
  have cap: "reads (fst (mapRowsS (capRowS cap c) (fst state) (snd state)))
               (snd (mapRowsS (capRowS cap c) (fst state) (snd state))) (map (capRow cap c) rows)"
    for cap c
    using capRowS_extends capRowS_step assms by (rule mapRowsS_reads)
  show ?thesis
    using assms cap by (simp add: applyOutlierS_def applyOutlier_def split: option.splits)
qed

lemma applySuggestionS_reads:
  assumes "reads (fst state) (snd state) rows"
  shows "reads (fst (applySuggestionS env profile state s))
           (snd (applySuggestionS env profile state s)) (applySuggestion env profile rows s)"
proof -
  define state1 where "state1 =
    (if issue s = Duplicate \<and> autoFix s = Some True
     then (fst state, removeDuplicatesS env (fst state) (snd state)) else state)"
  define cleaned1 where "cleaned1 =
    (if issue s = Duplicate \<and> autoFix s = Some True then removeDuplicates env rows else rows)"
  have one: "reads (fst state1) (snd state1) cleaned1"
    using assms removeDuplicatesS_reads [OF assms, of env]
    by (simp add: state1_def cleaned1_def)
  have fill: "reads (fst (mapRowsS (fillRowS col c) (fst state1) (snd state1)))
               (snd (mapRowsS (fillRowS col c) (fst state1) (snd state1)))
               (map (fillRow col c) cleaned1)" for col c
    using fillRowS_extends fillRowS_step one by (rule mapRowsS_reads)
  have lhs: "applySuggestionS env profile state s =
      (if issue s = Missing \<and> autoFix s = Some True then
           (case find (\<lambda>col. name col = column s) (columns profile) of
              None \<Rightarrow> state1
            | Some col \<Rightarrow>
                applyOutlierS profile s
                  (mapRowsS (fillRowS col (column s)) (fst state1) (snd state1)))
         else applyOutlierS profile s state1)"
    unfolding applySuggestionS_def state1_def Let_def by (rule refl)
  have rhs: "applySuggestion env profile rows s =
      (if issue s = Missing \<and> autoFix s = Some True then
           (case find (\<lambda>col. name col = column s) (columns profile) of
              None \<Rightarrow> cleaned1
            | Some col \<Rightarrow> applyOutlier profile s (map (fillRow col (column s)) cleaned1))
         else applyOutlier profile s cleaned1)"
    unfolding applySuggestion_def cleaned1_def Let_def by (rule refl)
  show ?thesis
    unfolding lhs rhs
    using one applyOutlierS_reads [OF one] applyOutlierS_reads [OF fill]
    by (simp split: option.splits)
qed

lemma foldl_applySuggestionS_reads:
  "reads (fst state) (snd state) rows \<Longrightarrow>
     reads (fst (foldl (applySuggestionS env profile) state sel))
       (snd (foldl (applySuggestionS env profile) state sel))
       (foldl (applySuggestion env profile) rows sel)"
proof (induction sel arbitrary: state rows)
  case Nil
  then show ?case by simp
next
  case (Cons s sel)
  from applySuggestionS_reads [OF Cons.prems] show ?case
    by (simp add: Cons.IH)
qed

lemma cleanDatasetS_refines:
  assumes "list_all (\<lambda>a. a < length st) (data_r d)"
  shows "readDataset (fst (cleanDatasetS env st d profile sel))
           (snd (cleanDatasetS env st d profile sel)) =
         cleanDataset env (readDataset st d) profile sel"
proof -
  from assms have "reads (fst (st, data_r d)) (snd (st, data_r d)) (data (readDataset st d))"
    by (simp add: reads_def readDataset_def)
  from foldl_applySuggestionS_reads [OF this, of env profile sel] show ?thesis
    by (simp add: cleanDatasetS_def cleanDataset_def readDataset_def reads_def case_prod_beta)
qed


subsection \<open>Answers\<close>

lemma maximum_answer_iff:
  "(answerMaximum env ql rows col = Inr (maximumText env rows col)) =
     (asksMaximum ql \<and> firstIsNumber (presentValues rows col))"
  by (simp add: answerMaximum_def answerMinimum_def answerAverage_def answerUnique_def
      answerMissing_def answerGeneric_def maximumText_def minimumText_def Let_def
      split: list.splits)

lemma minimum_answer_iff:
  "(answerMaximum env ql rows col = Inr (minimumText env rows col)) =
     (\<not> asksMaximum ql \<and> asksMinimum ql \<and> firstIsNumber (presentValues rows col))"
  by (auto simp add: answerMaximum_def answerMinimum_def answerAverage_def answerUnique_def
      answerMissing_def answerGeneric_def maximumText_def minimumText_def Let_def
      split: list.splits)

lemma extremum_fallthrough:
  "\<not> firstIsNumber (presentValues rows col) \<Longrightarrow>
     answerMaximum env ql rows col = answerAverage env ql rows col"
  by (simp add: answerMaximum_def answerMinimum_def)

lemma generateAnswer_column:
  "\<not> includes_s (toLowerCase q) ''how many rows'' \<Longrightarrow>
   \<not> includes_s (toLowerCase q) ''how many records'' \<Longrightarrow>
   \<not> includes_s (toLowerCase q) ''how many columns'' \<Longrightarrow>
   \<not> includes_s (toLowerCase q) ''how many fields'' \<Longrightarrow>
   \<not> includes_s (toLowerCase q) ''what columns'' \<Longrightarrow>
   \<not> includes_s (toLowerCase q) ''what fields'' \<Longrightarrow>
   mentionedColumn (toLowerCase q) (fields_d ds) = Some col \<Longrightarrow> col \<noteq> [] \<Longrightarrow>
   generateAnswer env q ds = answerMaximum env (toLowerCase q) (data ds) col"
  by (simp add: generateAnswer_def Let_def)

lemma lower_max_question: "toLowerCase ''What is the max of x?'' = ''what is the max of x?''"
  by (simp add: toLowerCase_def lowerOf_def)

lemma mixed_dataset_answer:
  "generateAnswer env ''What is the max of x?'' mixed_dataset =
     Inr (''Information about '' @ [CHR 0x22] @ ''x'' @ [CHR 0x22] @ '': '' @ [CHR 0x0A] @
          ''- 3 unique values'' @ [CHR 0x0A] @
          ''- 0 missing values ('' @ toFixed env (Fin 0) 2 @ ''%)'' @ [CHR 0x0A] @
          ''- Type: string'')"
  by (simp add: generateAnswer_def Let_def lower_max_question mixed_dataset_def
      mentionedColumn_def toLowerCase_def lowerOf_def answerMaximum_def answerMinimum_def
      answerAverage_def answerUnique_def answerMissing_def answerGeneric_def asksMaximum_def
      asksMinimum_def firstIsNumber_def presentValues_def row_get_def isNumber_def
      missingCount_def missingPercentage_def isMissing_def js_of_nat_def digits_of.simps)

lemma row_count_scenario:
  "generateAnswer env ''How many rows are in this dataset?'' scenario_dataset =
     Inr ''There are 3 rows in this dataset.''"
  by (simp add: generateAnswer_def scenario_dataset_def toLowerCase_def lowerOf_def
      digits_of.simps)

section \<open>The profile: null counts\<close>

text \<open>
  C1. For every dataset, the \<^verbatim>\<open>nullValues\<close> of the profile that \<open>generateDataProfile\<close>
  returns is the sum of the \<^verbatim>\<open>nullCount\<close> of its columns, and every column has a
  \<^verbatim>\<open>nullCount\<close>.
\<close>

theorem generateDataProfile_nullValues_sum:
  "sumNullCounts (columns (generateDataProfile env dataset)) =
     Some (nullValues (generateDataProfile env dataset))"
proof -
  obtain k cols where run:
    "mapFields (profileField env (data dataset) (length (data dataset))) 0 (fields_d dataset)
       = (k, cols)"
    by (cases "mapFields (profileField env (data dataset) (length (data dataset))) 0
                 (fields_d dataset)")
  from mapFields_sum [OF run] have "sumNullCounts cols = Some k"
    by (cases "sumNullCounts cols") simp_all
  with run show ?thesis
    by (simp add: generateDataProfile_def Let_def)
qed

section \<open>The profile of a dataset without rows\<close>

text \<open>
  With no rows every percentage is a division of zero by zero. The function has no test for
  that and the quotient is \<open>NaN\<close>, whatever the fields are.
\<close>

lemma zero_rows_percentages:
  assumes "data ds = []"
  shows "nullPercentage_p (generateDataProfile env ds) = NaN"
    and "duplicatePercentage (generateDataProfile env ds) = NaN"
    and "list_all (\<lambda>c. nullPercentage c = Some NaN) (columns (generateDataProfile env ds))"
proof -
  show "nullPercentage_p (generateDataProfile env ds) = NaN"
    using mapFields_no_rows [of env 0 0 "fields_d ds"] assms
    by (cases "mapFields (profileField env [] 0) 0 (fields_d ds)")
       (simp add: generateDataProfile_def Let_def js_of_nat_def)
  show "duplicatePercentage (generateDataProfile env ds) = NaN"
    using assms
    by (simp add: duplicatePercentage_generateDataProfile duplicateRows_generateDataProfile
        js_of_nat_def)
  show "list_all (\<lambda>c. nullPercentage c = Some NaN) (columns (generateDataProfile env ds))"
    using assms
    by (simp add: columns_generateDataProfile list_all_iff profileField_def Let_def js_of_nat_def)
qed

text \<open>
  C2. For a dataset with zero rows \<open>generateDataProfile\<close> returns a profile (it does not
  throw), and the claim has every percentage of it equal to 0. At the dataset with the one
  field \<open>a\<close> and no rows the three percentages are \<open>NaN\<close>.
\<close>

theorem generateDataProfile_zero_rows:
  "generateDataProfile env empty_dataset =
     \<lparr> rowCount = 0, columnCount = 1,
       columns = [\<lparr> name = ''a'', type_c = TString, uniqueValues = Some [], uniqueCount = Some 0,
                    nullCount = Some 0, nullPercentage = Some NaN, min_c = None, max_c = None,
                    mean = None, median = None, categories = Some [], mode = None \<rparr>],
       nullValues = 0, nullPercentage_p = NaN, duplicateRows = 0, duplicatePercentage = NaN \<rparr>"
  by (simp add: generateDataProfile_def empty_dataset_def profileField_def Let_def js_of_nat_def
      determineColumnType_def countCategories_def findMode_def)

section \<open>Date strings\<close>

lemma matchesAt_matchesSomewhere: "matchesAt p s \<Longrightarrow> matchesSomewhere p s"
  by (cases s) simp_all

text \<open>A string that has one of the three forms at its start is a date for the code too.\<close>

lemma spec_isDate_valueType: "spec_isDate s \<Longrightarrow> valueType (JStr s) = TDate"
  by (auto simp: spec_isDate_def datePattern_test_def dest: matchesAt_matchesSomewhere)

text \<open>
  C3. In \<open>determineColumnType\<close> a non-empty string is a date if and only if it has one of
  the forms YYYY-MM-DD, MM/DD/YYYY, MM-DD-YYYY at its start. The string \<open>x01/02/2000\<close> has
  none of them at its start and the code takes it as a date: the second and third
  alternatives of the regular expression are not anchored.
\<close>

theorem unanchored_date_is_date:
  "valueType (JStr ''x01/02/2000'') = TDate \<and>
   \<not> spec_isDate ''x01/02/2000'' \<and>
   determineColumnType [JStr ''x01/02/2000''] = TDate"
  by (simp add: datePattern_test_def spec_isDate_def pat_ymd_def pat_mdy_slash_def
      pat_mdy_dash_def determineColumnType_def isMissing_def)

section \<open>Recommendation texts\<close>

text \<open>
  A string column with a mode gets the recommendation that names the mode, in double
  quotes.
\<close>

lemma string_column_recommendation:
  "map recommendation
       (filter (\<lambda>s. issue s = Missing)
          (generateCleaningSuggestions env (generateDataProfile env city_dataset))) =
     [''Fill with most common value: '' @ [CHR 0x22] @ ''NY'' @ [CHR 0x22]]"
  by (simp add: missing_suggestions columns_city_dataset hasMissing_def truthy_num_def
      js_gt_def missingSuggestion_def missingRecommendation_def)

text \<open>
  C4. The recommendation of a missing suggestion is \<open>Fill with mean or median value\<close> for
  a number column, \<open>Fill with most common value: m\<close> for a categorical column (string or
  boolean) with a defined mode \<open>m\<close>, and \<open>Remove rows or fill with placeholder\<close>
  otherwise. The code tests for type string only. The profile of the dataset with the
  column \<open>ok\<close> and the cells \<open>true\<close> and \<open>null\<close> has type boolean and the mode \<open>true\<close>, its
  one missing suggestion recommends removing rows or a placeholder, and applying that
  suggestion fills the missing cell with the mode.
\<close>

theorem boolean_column_recommendation:
  "map (\<lambda>c. (type_c c, mode c, hasMissing c))
       (columns (generateDataProfile env boolean_dataset)) =
     [(TBoolean, Some (ModeStr ''true''), True)] \<and>
   map recommendation
       (filter (\<lambda>s. issue s = Missing)
          (generateCleaningSuggestions env (generateDataProfile env boolean_dataset))) =
     [''Remove rows or fill with placeholder''] \<and>
   data (cleanDataset env boolean_dataset (generateDataProfile env boolean_dataset)
           (filter (\<lambda>s. issue s = Missing)
              (generateCleaningSuggestions env (generateDataProfile env boolean_dataset)))) =
     [[(''ok'', JBool True)], [(''ok'', JStr ''true'')]]"
proof -
  have rows: "data boolean_dataset = [[(''ok'', JBool True)], [(''ok'', JNull)]]"
    by (simp add: boolean_dataset_def)
  have "data (cleanDataset env boolean_dataset (generateDataProfile env boolean_dataset)
           (filter (\<lambda>s. issue s = Missing)
              (generateCleaningSuggestions env (generateDataProfile env boolean_dataset)))) =
     [[(''ok'', JBool True)], [(''ok'', JStr ''true'')]]"
    by (simp add: missing_suggestions columns_boolean_dataset rows hasMissing_def
        truthy_num_def js_gt_def missingSuggestion_def cleanDataset_def applySuggestion_def
        applyOutlier_def fillRow_def fillValue_def row_get_def isMissing_def)
  then show ?thesis
    by (simp add: missing_suggestions columns_boolean_dataset hasMissing_def truthy_num_def
        js_gt_def missingSuggestion_def missingRecommendation_def)
qed

section \<open>Duplicate rows\<close>

text \<open>
  The number of duplicate rows is the number of rows minus the number of distinct keys, on
  every dataset, and with at least one row the percentage lies between 0 and 100.
\<close>

lemma duplicateRows_distinct_keys:
  "int (duplicateRows (generateDataProfile env ds)) =
     int (rowCount (generateDataProfile env ds)) -
     int (card (set (map (JSON_stringify env) (data ds))))"
proof -
  have "card (set (map (JSON_stringify env) (data ds))) \<le> length (data ds)"
    using card_length [of "map (JSON_stringify env) (data ds)"] by simp
  moreover have "rowCount (generateDataProfile env ds) = length (data ds)"
    by (simp add: generateDataProfile_def Let_def split: prod.splits)
  ultimately show ?thesis
    by (simp add: duplicateRows_generateDataProfile)
qed

lemma percentage_range:
  assumes "d \<le> r" and "0 < r"
  shows "js_le (Fin 0) (js_mul (js_div (js_of_nat d) (js_of_nat r)) (Fin 100)) \<and>
         js_le (js_mul (js_div (js_of_nat d) (js_of_nat r)) (Fin 100)) (Fin 100)"
proof -
  have "(of_nat d :: rat) * 100 \<le> 100 * of_nat r"
    using assms by simp
  then have "(of_nat d :: rat) * 100 / of_nat r \<le> 100"
    using assms by (simp add: pos_divide_le_eq)
  moreover have "0 \<le> (of_nat d :: rat) * 100 / of_nat r"
    by simp
  ultimately show ?thesis
    using assms by (simp add: js_le_def js_of_nat_def not_less)
qed

lemma duplicatePercentage_range:
  assumes "data ds \<noteq> []"
  shows "js_le (Fin 0) (duplicatePercentage (generateDataProfile env ds)) \<and>
         js_le (duplicatePercentage (generateDataProfile env ds)) (Fin 100)"
  unfolding duplicatePercentage_generateDataProfile
  using assms by (intro percentage_range) (simp_all add: duplicateRows_generateDataProfile)

text \<open>
  C5. For every dataset \<^verbatim>\<open>duplicateRows\<close> is the row count minus the number of distinct
  row keys, and \<^verbatim>\<open>duplicatePercentage\<close> lies between 0 and 100. At the dataset without
  rows the count is right and the percentage is \<open>NaN\<close>, which is neither at least 0 nor at
  most 100.
\<close>

theorem duplicatePercentage_zero_rows:
  "duplicateRows (generateDataProfile env empty_dataset) = 0 \<and>
   duplicatePercentage (generateDataProfile env empty_dataset) = NaN \<and>
   \<not> js_le (Fin 0) (duplicatePercentage (generateDataProfile env empty_dataset)) \<and>
   \<not> js_le (duplicatePercentage (generateDataProfile env empty_dataset)) (Fin 100)"
  by (simp add: duplicatePercentage_generateDataProfile duplicateRows_generateDataProfile
      empty_dataset_def js_of_nat_def js_le_def)

section \<open>Capping outliers\<close>

text \<open>
  C6. When \<open>cleanDataset\<close> applies an outlier suggestion with \<^verbatim>\<open>autoFix\<close> for a column that
  the profile has as a number column with a median, every row goes through \<open>capRow\<close> with
  the cap \<open>median \<times> 3\<close>: a number cell of that column above the cap becomes the cap, every
  other cell of the row keeps its value, and a row with no such cell is returned as it is.
  With the values 10, 10, 10, 1000 the last cell becomes 30.
\<close>

theorem outlier_capping:
  assumes "issue s = Outlier" and "autoFix s = Some True"
    and "find (\<lambda>col. name col = column s) (columns profile) = Some col"
    and "type_c col = TNumber" and "median col = Some m"
  shows "data (cleanDataset env ds profile [s]) =
           map (capRow (js_mul m (Fin 3)) (column s)) (data ds) \<and>
         (\<forall>r f. row_get (capRow (js_mul m (Fin 3)) (column s) r) f =
            (if f = column s
             then (case row_get r f of
                     JNum v \<Rightarrow> if js_gt v (js_mul m (Fin 3)) then JNum (js_mul m (Fin 3)) else JNum v
                   | w \<Rightarrow> w)
             else row_get r f)) \<and>
         (\<forall>r. (\<exists>v. row_get r (column s) = JNum v \<and> js_gt v (js_mul m (Fin 3))) \<or>
              capRow (js_mul m (Fin 3)) (column s) r = r) \<and>
         data (cleanDataset env outlier_dataset (generateDataProfile env outlier_dataset)
                 (filter (\<lambda>s. issue s = Outlier)
                    (generateCleaningSuggestions env (generateDataProfile env outlier_dataset)))) =
           [[(''v'', JNum (Fin 10))], [(''v'', JNum (Fin 10))], [(''v'', JNum (Fin 10))],
            [(''v'', JNum (Fin 30))]]"
proof -
  have "data (cleanDataset env ds profile [s]) =
          map (capRow (js_mul m (Fin 3)) (column s)) (data ds)"
    using assms by (rule cleanDataset_outlier)
  moreover have "\<forall>r. (\<exists>v. row_get r (column s) = JNum v \<and> js_gt v (js_mul m (Fin 3))) \<or>
                    capRow (js_mul m (Fin 3)) (column s) r = r"
    using capRow_unchanged by blast
  ultimately show ?thesis
    by (simp add: capRow_cell outlier_scenario)
qed

theorem outlier_capping_witness:
  "data (cleanDataset integer_builtins outlier_dataset
           (generateDataProfile integer_builtins outlier_dataset) [outlier_suggestion]) =
     [[(''v'', JNum (Fin 10))], [(''v'', JNum (Fin 10))], [(''v'', JNum (Fin 10))],
      [(''v'', JNum (Fin 30))]]"
proof -
  let ?col = "\<lparr> name = ''v'', type_c = TNumber,
        uniqueValues = Some [JNum (Fin 10), JNum (Fin 1000)],
        uniqueCount = Some 2, nullCount = Some 0, nullPercentage = Some (Fin 0),
        min_c = Some (Fin 10), max_c = Some (Fin 1000), mean = Some (Fin (515 / 2)),
        median = Some (Fin 10), categories = None, mode = None \<rparr>"
  have 1: "issue outlier_suggestion = Outlier" and 2: "autoFix outlier_suggestion = Some True"
    by (simp_all add: outlier_suggestion_def)
  have 3: "find (\<lambda>col. name col = column outlier_suggestion)
             (columns (generateDataProfile integer_builtins outlier_dataset)) = Some ?col"
    by (simp add: columns_outlier_dataset outlier_suggestion_def)
  have 4: "type_c ?col = TNumber" and 5: "median ?col = Some (Fin 10)"
    by simp_all
  from outlier_capping [OF 1 2 3 4 5, of integer_builtins outlier_dataset]
  have "data (cleanDataset integer_builtins outlier_dataset
           (generateDataProfile integer_builtins outlier_dataset) [outlier_suggestion]) =
        map (capRow (js_mul (Fin 10) (Fin 3)) (column outlier_suggestion)) (data outlier_dataset)"
    by (rule conjunct1)
  then show ?thesis
    by (simp add: data_outlier_dataset outlier_suggestion_def capRow_def row_get_def js_gt_def)
qed

section \<open>Removing duplicates twice\<close>

text \<open>
  C7. Applying the duplicate suggestion with \<^verbatim>\<open>autoFix\<close> through \<open>cleanDataset\<close> a second
  time, to the result of the first and with any profile, or twice in one call, gives the
  dataset of the first application. The result has one row for each distinct key, in the
  order in which the keys first occur, and each of its rows is a row of the input.
\<close>

theorem duplicate_removal_idempotent:
  assumes "issue s = Duplicate" and "autoFix s = Some True"
  shows "cleanDataset env (cleanDataset env ds p [s]) p' [s] = cleanDataset env ds p [s] \<and>
         cleanDataset env ds p [s, s] = cleanDataset env ds p [s] \<and>
         map (JSON_stringify env) (data (cleanDataset env ds p [s])) =
           uniq (map (JSON_stringify env) (data ds)) \<and>
         set (data (cleanDataset env ds p [s])) \<subseteq> set (data ds)"
proof -
  have "cleanDataset env ds p [s, s] = cleanDataset env ds p [s]"
    using assms
    by (simp add: cleanDataset_def applySuggestion_def applyOutlier_def removeDuplicates_idem)
  then show ?thesis
    using assms
    by (simp add: cleanDataset_duplicate removeDuplicates_idem removeDuplicates_keys
        removeDuplicates_subset)
qed

theorem duplicate_removal_idempotent_witness:
  "cleanDataset integer_builtins
     (cleanDataset integer_builtins scenario_dataset
        (generateDataProfile integer_builtins scenario_dataset) [duplicate_suggestion])
     (generateDataProfile integer_builtins scenario_dataset) [duplicate_suggestion] =
   cleanDataset integer_builtins scenario_dataset
     (generateDataProfile integer_builtins scenario_dataset) [duplicate_suggestion]"
proof -
  have 1: "issue duplicate_suggestion = Duplicate"
    and 2: "autoFix duplicate_suggestion = Some True"
    by (simp_all add: duplicate_suggestion_def)
  from duplicate_removal_idempotent [OF 1 2] show ?thesis
    by (rule conjunct1)
qed

section \<open>The row count answer\<close>

text \<open>
  C8. When the lower-cased question contains \<open>how many rows\<close> or \<open>how many records\<close>,
  \<open>generateAnswer\<close> returns the sentence with the number of rows; on the dataset of
  Scenario A the question \<open>How many rows are in this dataset?\<close> gives
  \<open>There are 3 rows in this dataset.\<close>
\<close>

theorem row_count_answer:
  "(includes_s (toLowerCase q) ''how many rows'' \<or>
    includes_s (toLowerCase q) ''how many records'' \<longrightarrow>
      generateAnswer env q ds =
        Inr (''There are '' @ digits_of (length (data ds)) @ '' rows in this dataset.'')) \<and>
   generateAnswer env ''How many rows are in this dataset?'' scenario_dataset =
     Inr ''There are 3 rows in this dataset.''"
proof -
  have "includes_s (toLowerCase q) ''how many rows'' \<or>
        includes_s (toLowerCase q) ''how many records'' \<longrightarrow>
          generateAnswer env q ds =
            Inr (''There are '' @ digits_of (length (data ds)) @ '' rows in this dataset.'')"
    by (auto simp: generateAnswer_def Let_def)
  then show ?thesis
    using row_count_scenario [of env] by (rule conjI)
qed

theorem row_count_answer_witness:
  "includes_s (toLowerCase ''HOW MANY RECORDS?'') ''how many records'' \<and>
   generateAnswer integer_builtins ''HOW MANY RECORDS?'' outlier_dataset =
     Inr ''There are 4 rows in this dataset.''"
proof -
  have q: "includes_s (toLowerCase ''HOW MANY RECORDS?'') ''how many records''"
    by (simp add: toLowerCase_def lowerOf_def)
  with row_count_answer [of "''HOW MANY RECORDS?''" integer_builtins outlier_dataset]
  have "generateAnswer integer_builtins ''HOW MANY RECORDS?'' outlier_dataset =
        Inr (''There are '' @ digits_of (length (data outlier_dataset)) @ '' rows in this dataset.'')"
    by blast
  with q show ?thesis
    by (simp add: data_outlier_dataset digits_of.simps)
qed

section \<open>The input of the cleaning transform\<close>

text \<open>
  C9. \<open>cleanDataset\<close> returns a dataset with the fields and the filename of its input, at
  the level of values and on the store. On the store, every object that was allocated
  before the call, the rows of the input among them, is the same after it, whatever the
  dataset, the profile and the suggestions are; and when the addresses of the input are
  allocated, the rows that the result refers to are the rows that \<open>cleanDataset\<close> computes
  from the rows of the input.
\<close>

theorem cleanDataset_frame:
  assumes "list_all (\<lambda>a. a < length st) (data_r d)"
  shows "fields_d (cleanDataset env ds profile sel) = fields_d ds \<and>
         filename (cleanDataset env ds profile sel) = filename ds \<and>
         fields_r (snd (cleanDatasetS env st d profile sel)) = fields_r d \<and>
         filename_r (snd (cleanDatasetS env st d profile sel)) = filename_r d \<and>
         take (length st) (fst (cleanDatasetS env st d profile sel)) = st \<and>
         readDataset (fst (cleanDatasetS env st d profile sel)) d = readDataset st d \<and>
         readDataset (fst (cleanDatasetS env st d profile sel))
             (snd (cleanDatasetS env st d profile sel)) =
           cleanDataset env (readDataset st d) profile sel"
proof -
  have ext: "extends (fst (cleanDatasetS env st d profile sel)) st"
    using foldl_applySuggestionS_extends [of env profile "(st, data_r d)" sel]
    by (simp add: cleanDatasetS_def case_prod_beta)
  from assms have "reads st (data_r d) (map (\<lambda>a. st ! a) (data_r d))"
    by (simp add: reads_def)
  from reads_extends [OF this ext]
  have same: "readDataset (fst (cleanDatasetS env st d profile sel)) d = readDataset st d"
    by (simp add: reads_def readDataset_def)
  from ext have "take (length st) (fst (cleanDatasetS env st d profile sel)) = st"
    by (simp add: extends_def)
  with same cleanDatasetS_refines [OF assms, of env profile sel] show ?thesis
    by (simp add: cleanDataset_def cleanDatasetS_def case_prod_beta)
qed

theorem cleanDataset_frame_witness:
  "take 3 (fst (cleanDatasetS integer_builtins (data scenario_dataset) scenario_refs
                  (generateDataProfile integer_builtins scenario_dataset) [missing_suggestion])) =
     data scenario_dataset \<and>
   readDataset (fst (cleanDatasetS integer_builtins (data scenario_dataset) scenario_refs
                       (generateDataProfile integer_builtins scenario_dataset) [missing_suggestion]))
       scenario_refs = scenario_dataset"
proof -
  have len: "length (data scenario_dataset) = 3"
    by (simp add: scenario_dataset_def)
  have valid: "list_all (\<lambda>a. a < length (data scenario_dataset)) (data_r scenario_refs)"
    by (simp add: scenario_dataset_def scenario_refs_def)
  have input: "readDataset (data scenario_dataset) scenario_refs = scenario_dataset"
    by (simp add: readDataset_def scenario_dataset_def scenario_refs_def)
  from cleanDataset_frame [OF valid, of integer_builtins scenario_dataset
      "generateDataProfile integer_builtins scenario_dataset" "[missing_suggestion]"]
  show ?thesis
    by (simp add: len input)
qed

section \<open>Maximum and minimum answers\<close>

text \<open>
  C10. When the question names a column (and none of the earlier patterns), the answer is
  the maximum sentence exactly when the question has a maximum keyword and the first value
  of the column that is neither null nor undefined is a number, and the minimum sentence
  exactly when it has a minimum keyword and no maximum keyword and that first value is a
  number. When that first value is not a number, or there is none, both tests fall through
  to the average test and what follows it, also when later values of the column are
  numbers: for the column with the values \<open>n/a\<close>, 5, 7 the question \<open>What is the max of x?\<close>
  gets the general summary of the column.
\<close>

theorem extremum_answer_first_value:
  assumes "\<not> includes_s (toLowerCase q) ''how many rows''"
    and "\<not> includes_s (toLowerCase q) ''how many records''"
    and "\<not> includes_s (toLowerCase q) ''how many columns''"
    and "\<not> includes_s (toLowerCase q) ''how many fields''"
    and "\<not> includes_s (toLowerCase q) ''what columns''"
    and "\<not> includes_s (toLowerCase q) ''what fields''"
    and "mentionedColumn (toLowerCase q) (fields_d ds) = Some col" and "col \<noteq> []"
  shows "(generateAnswer env q ds = Inr (maximumText env (data ds) col)) =
           (asksMaximum (toLowerCase q) \<and> firstIsNumber (presentValues (data ds) col)) \<and>
         (generateAnswer env q ds = Inr (minimumText env (data ds) col)) =
           (\<not> asksMaximum (toLowerCase q) \<and> asksMinimum (toLowerCase q) \<and>
            firstIsNumber (presentValues (data ds) col)) \<and>
         (firstIsNumber (presentValues (data ds) col) \<or>
            generateAnswer env q ds = answerAverage env (toLowerCase q) (data ds) col) \<and>
         generateAnswer env ''What is the max of x?'' mixed_dataset =
           Inr (''Information about '' @ [CHR 0x22] @ ''x'' @ [CHR 0x22] @ '': '' @ [CHR 0x0A] @
                ''- 3 unique values'' @ [CHR 0x0A] @
                ''- 0 missing values ('' @ toFixed env (Fin 0) 2 @ ''%)'' @ [CHR 0x0A] @
                ''- Type: string'')"
proof -
  have "generateAnswer env q ds = answerMaximum env (toLowerCase q) (data ds) col"
    using assms by (rule generateAnswer_column)
  then show ?thesis
    using extremum_fallthrough [of "data ds" col env "toLowerCase q"]
    by (auto simp: maximum_answer_iff minimum_answer_iff mixed_dataset_answer)
qed

theorem extremum_answer_first_value_witness:
  "asksMaximum (toLowerCase ''What is the max of x?'') \<and>
   \<not> firstIsNumber (presentValues (data mixed_dataset) ''x'') \<and>
   numbersOf (map (\<lambda>r. row_get r ''x'') (data mixed_dataset)) = [Fin 5, Fin 7] \<and>
   generateAnswer integer_builtins ''What is the max of x?'' mixed_dataset \<noteq>
     Inr (maximumText integer_builtins (data mixed_dataset) ''x'')"
proof -
  have lower: "toLowerCase ''What is the max of x?'' = ''what is the max of x?''"
    by (rule lower_max_question)
  have asks: "asksMaximum (toLowerCase ''What is the max of x?'')"
    by (simp add: lower asksMaximum_def)
  have first: "\<not> firstIsNumber (presentValues (data mixed_dataset) ''x'')"
    by (simp add: mixed_dataset_def presentValues_def row_get_def firstIsNumber_def isNumber_def)
  have nums: "numbersOf (map (\<lambda>r. row_get r ''x'') (data mixed_dataset)) = [Fin 5, Fin 7]"
    by (simp add: mixed_dataset_def row_get_def)
  have col: "mentionedColumn ''what is the max of x?'' (fields_d mixed_dataset) = Some ''x''"
    by (simp add: mixed_dataset_def mentionedColumn_def toLowerCase_def lowerOf_def)
  have "(generateAnswer integer_builtins ''What is the max of x?'' mixed_dataset =
           Inr (maximumText integer_builtins (data mixed_dataset) ''x'')) =
        (asksMaximum (toLowerCase ''What is the max of x?'') \<and>
         firstIsNumber (presentValues (data mixed_dataset) ''x''))"
    by (rule extremum_answer_first_value [THEN conjunct1])
       (simp_all add: lower col)
  with asks first nums show ?thesis
    by simp
qed


end
